theory Spec2Isabelle
  imports Main
begin

section \<open>JavaScript values\<close>

text \<open>
  The normalizers take \<^verbatim>\<open>any\<close>: whatever the HTTP client parsed from the upstream's JSON
  body. A value is therefore a JSON value, or \<^verbatim>\<open>undefined\<close> (what reading a missing
  property gives and what the normalizers store in optional fields), or a built-in function
  (what reading \<^verbatim>\<open>link\<close> of a string primitive gives: \<^verbatim>\<open>String.prototype.link\<close>).
  Numbers are the integers that a number of the language holds exactly, those of magnitude
  up to \<open>2 ^ 53\<close>: the code only tests numbers against zero, copies them and prints them
  into a link. A number with a fraction, and one beyond that magnitude, is outside the model.
  An object is its list of properties; the first binding of a key is the property's value.
  Strings are lists of code units, those below 256.
\<close>

datatype jv =
    JUndef
  | JNull
  | JBool bool
  | JNum int
  | JStr string
  | JArr "jv list"
  | JObj "(string \<times> jv) list"
  | JFun string

text \<open>
  What the code throws: a \<^verbatim>\<open>TypeError\<close> of the language (reading a property of null or
  undefined, calling what is not a function, converting an object with no usable
  \<^verbatim>\<open>toString\<close>), the HTTP client's rejection, \<^verbatim>\<open>new Error(msg)\<close>, and the
  \<^verbatim>\<open>catch\<close> blocks' \<^verbatim>\<open>new Error(`prefix: ${error.message}`)\<close>, kept as the prefix
  and the error it wraps.
\<close>

datatype error =
    TypeError
  | Upstream string
  | Err string
  | Failed string error

definition truthy :: "jv \<Rightarrow> bool" where
  "truthy v = (case v of
      JUndef \<Rightarrow> False
    | JNull \<Rightarrow> False
    | JBool b \<Rightarrow> b
    | JNum n \<Rightarrow> n \<noteq> 0
    | JStr s \<Rightarrow> s \<noteq> []
    | JArr xs \<Rightarrow> True
    | JObj kvs \<Rightarrow> True
    | JFun f \<Rightarrow> True)"

text \<open>\<^verbatim>\<open>a || b\<close>: the left operand when it is truthy, the right one otherwise.\<close>

definition or_js :: "jv \<Rightarrow> jv \<Rightarrow> jv" where
  "or_js a b = (if truthy a then a else b)"

definition nullish :: "jv \<Rightarrow> bool" where
  "nullish v = (v = JNull \<or> v = JUndef)"

text \<open>
  \<^verbatim>\<open>v.k\<close> for a value that is neither null nor undefined, and for the property names the
  code reads: an object gives the property or undefined; of the primitives only a string has
  one of those names on its prototype (\<^verbatim>\<open>link\<close>).
\<close>

definition js_prop :: "jv \<Rightarrow> string \<Rightarrow> jv" where
  "js_prop v k = (case v of
      JObj kvs \<Rightarrow> (case map_of kvs k of Some x \<Rightarrow> x | None \<Rightarrow> JUndef)
    | JStr s \<Rightarrow> (if k = ''link'' then JFun ''link'' else JUndef)
    | _ \<Rightarrow> JUndef)"

text \<open>\<^verbatim>\<open>v.k\<close> for any value: reading a property of null or undefined throws.\<close>

definition get :: "jv \<Rightarrow> string \<Rightarrow> error + jv" where
  "get v k = (if nullish v then Inl TypeError else Inr (js_prop v k))"

text \<open>\<^verbatim>\<open>v?.k\<close>\<close>

definition opt_prop :: "jv \<Rightarrow> string \<Rightarrow> jv" where
  "opt_prop v k = (if nullish v then JUndef else js_prop v k)"

text \<open>\<^verbatim>\<open>typeof v === 'object'\<close>, which holds of null too.\<close>

definition typeof_object :: "jv \<Rightarrow> bool" where
  "typeof_object v = (case v of JNull \<Rightarrow> True | JArr xs \<Rightarrow> True | JObj kvs \<Rightarrow> True | _ \<Rightarrow> False)"

text \<open>
  The decimal digits of an integer: what a template literal prints for a number of the
  model. (From \<open>10 ^ 21\<close> on the language prints an exponent instead, for numbers that the
  model does not hold; the only text that depends on the digits is \<^verbatim>\<open>_links.self\<close>.)
\<close>

fun digit_str :: "nat \<Rightarrow> string" where
  "digit_str n = (if n < 10 then [char_of (48 + n)] else digit_str (n div 10) @ [char_of (48 + n mod 10)])"

definition int_str :: "int \<Rightarrow> string" where
  "int_str i = (if i < 0 then CHR ''-'' # digit_str (nat (- i)) else digit_str (nat i))"

text \<open>\<^verbatim>\<open>xs.join(sep)\<close> on strings.\<close>

fun join_str :: "string \<Rightarrow> string list \<Rightarrow> string" where
  "join_str sep [] = []"
| "join_str sep [x] = x"
| "join_str sep (x # y # ys) = x @ sep @ join_str sep (y # ys)"

text \<open>The results of a list of computations, or the first error among them.\<close>

fun sequence :: "(error + 'a) list \<Rightarrow> error + 'a list" where
  "sequence [] = Inr []"
| "sequence (r # rs) =
    (case r of Inl e \<Rightarrow> Inl e
     | Inr y \<Rightarrow> (case sequence rs of Inl e \<Rightarrow> Inl e | Inr ys \<Rightarrow> Inr (y # ys)))"

text \<open>
  The string a template literal \<^verbatim>\<open>`${v}`\<close> puts in for \<open>v\<close>. An array joins its elements
  with commas, null and undefined as the empty string. A parsed object prints as
  \<^verbatim>\<open>[object Object]\<close>, unless it has a property of its own called \<^verbatim>\<open>toString\<close>: that
  one is no function, and the conversion throws.
\<close>

fun to_str :: "jv \<Rightarrow> error + string" where
  "to_str JUndef = Inr ''undefined''"
| "to_str JNull = Inr ''null''"
| "to_str (JBool b) = Inr (if b then ''true'' else ''false'')"
| "to_str (JNum n) = Inr (int_str n)"
| "to_str (JStr s) = Inr s"
| "to_str (JArr xs) =
    (case sequence (map (\<lambda>x. if x = JNull \<or> x = JUndef then Inr [] else to_str x) xs) of
       Inl e \<Rightarrow> Inl e
     | Inr ss \<Rightarrow> Inr (join_str '','' ss))"
| "to_str (JObj kvs) =
    (if map_of kvs ''toString'' \<noteq> None then Inl TypeError else Inr ''[object Object]'')"
| "to_str (JFun f) = Inr (''function '' @ f @ ''() { [native code] }'')"

section \<open>The issue tracker's normalizers\<close>

text \<open>
  \<^verbatim>\<open>normalizeCustomIssue\<close>. Every property read is on \<^verbatim>\<open>customIssue\<close> itself, on
  \<^verbatim>\<open>customIssue.assignee\<close> under the test that it is truthy, or through \<^verbatim>\<open>?.\<close>; so
  the function throws exactly when \<^verbatim>\<open>customIssue\<close> is null or undefined, at its first
  read. \<open>now\<close> holds the two readings of the clock, \<^verbatim>\<open>new Date().toISOString()\<close> for
  \<^verbatim>\<open>created\<close> and for \<^verbatim>\<open>updated\<close>.
\<close>

definition normalizeCustomIssue :: "string \<times> string \<Rightarrow> jv \<Rightarrow> error + jv" where
  "normalizeCustomIssue now customIssue =
    (if nullish customIssue then Inl TypeError else Inr (JObj [
      (''id'', or_js (or_js (js_prop customIssue ''id'') (js_prop customIssue ''issue_id'')) (JStr [])),
      (''key'', or_js (or_js (or_js (js_prop customIssue ''key'') (js_prop customIssue ''id''))
                  (js_prop customIssue ''number'')) (JStr [])),
      (''fields'', JObj [
        (''summary'', or_js (or_js (or_js (js_prop customIssue ''title'') (js_prop customIssue ''summary''))
                  (js_prop customIssue ''name'')) (JStr [])),
        (''description'', or_js (or_js (js_prop customIssue ''description'') (js_prop customIssue ''body''))
                  (js_prop customIssue ''content'')),
        (''status'', JObj [
          (''name'', or_js (or_js (js_prop customIssue ''status'') (js_prop customIssue ''state'')) (JStr ''Unknown'')),
          (''id'', or_js (or_js (js_prop customIssue ''status_id'') (js_prop customIssue ''status'')) (JStr ''1''))]),
        (''assignee'', if truthy (js_prop customIssue ''assignee'') then JObj [
          (''displayName'', or_js (or_js (js_prop (js_prop customIssue ''assignee'') ''name'')
                  (js_prop customIssue ''assignee'')) (JStr [])),
          (''emailAddress'', or_js (js_prop (js_prop customIssue ''assignee'') ''email'') (JStr []))]
          else JUndef),
        (''reporter'', if truthy (or_js (js_prop customIssue ''reporter'') (js_prop customIssue ''created_by'')) then JObj [
          (''displayName'', or_js (or_js (opt_prop (js_prop customIssue ''reporter'') ''name'')
                  (js_prop customIssue ''created_by'')) (JStr [])),
          (''emailAddress'', or_js (opt_prop (js_prop customIssue ''reporter'') ''email'') (JStr []))]
          else JUndef),
        (''created'', or_js (or_js (js_prop customIssue ''created'') (js_prop customIssue ''created_at''))
                  (JStr (fst now))),
        (''updated'', or_js (or_js (js_prop customIssue ''updated'') (js_prop customIssue ''updated_at''))
                  (JStr (snd now))),
        (''priority'', if truthy (js_prop customIssue ''priority'') then JObj [
          (''name'', js_prop customIssue ''priority''),
          (''id'', or_js (js_prop customIssue ''priority_id'') (JStr ''3''))]
          else JUndef),
        (''issuetype'', JObj [
          (''name'', or_js (or_js (js_prop customIssue ''type'') (js_prop customIssue ''issue_type'')) (JStr ''Task'')),
          (''id'', or_js (js_prop customIssue ''type_id'') (JStr ''1''))]),
        (''project'', JObj [
          (''key'', or_js (or_js (js_prop customIssue ''project'') (js_prop customIssue ''project_key'')) (JStr [])),
          (''name'', or_js (or_js (js_prop customIssue ''project_name'') (js_prop customIssue ''project'')) (JStr []))]),
        (''labels'', or_js (or_js (js_prop customIssue ''labels'') (js_prop customIssue ''tags'')) (JArr []))])]))"

text \<open>\<^verbatim>\<open>JiraClient.normalizeCustomComment\<close>\<close>

definition jira_normalizeCustomComment :: "string \<times> string \<Rightarrow> jv \<Rightarrow> error + jv" where
  "jira_normalizeCustomComment now customComment =
    (if nullish customComment then Inl TypeError else Inr (JObj [
      (''id'', or_js (or_js (js_prop customComment ''id'') (js_prop customComment ''comment_id'')) (JStr [])),
      (''author'', JObj [
        (''displayName'', or_js (or_js (or_js (js_prop customComment ''author'') (js_prop customComment ''user''))
                  (js_prop customComment ''created_by'')) (JStr ''Unknown'')),
        (''emailAddress'', or_js (js_prop customComment ''author_email'') (JStr []))]),
      (''body'', or_js (or_js (or_js (js_prop customComment ''comment'') (js_prop customComment ''body''))
                  (js_prop customComment ''content'')) (JStr [])),
      (''created'', or_js (or_js (js_prop customComment ''created'') (js_prop customComment ''created_at''))
                  (JStr (fst now))),
      (''updated'', or_js (or_js (js_prop customComment ''updated'') (js_prop customComment ''updated_at''))
                  (JStr (snd now)))]))"

definition normalizeCustomProject :: "jv \<Rightarrow> error + jv" where
  "normalizeCustomProject customProject =
    (if nullish customProject then Inl TypeError else Inr (JObj [
      (''id'', or_js (or_js (js_prop customProject ''id'') (js_prop customProject ''project_id'')) (JStr [])),
      (''key'', or_js (or_js (or_js (js_prop customProject ''key'') (js_prop customProject ''code''))
                  (js_prop customProject ''id'')) (JStr [])),
      (''name'', or_js (or_js (js_prop customProject ''name'') (js_prop customProject ''title'')) (JStr [])),
      (''description'', or_js (js_prop customProject ''description'') (JStr [])),
      (''lead'', if truthy (or_js (js_prop customProject ''lead'') (js_prop customProject ''owner'')) then JObj [
          (''displayName'', or_js (or_js (opt_prop (js_prop customProject ''lead'') ''name'')
                  (js_prop customProject ''owner'')) (JStr []))]
          else JUndef)]))"

text \<open>
  \<^verbatim>\<open>xs.map(f)\<close> where \<open>f\<close> may throw and reads the clock: the element at index \<open>i\<close> is
  given the readings \<open>clock i\<close>, and the first element that throws ends the loop.
\<close>

fun map_indexed :: "(nat \<Rightarrow> 'a \<Rightarrow> error + 'b) \<Rightarrow> nat \<Rightarrow> 'a list \<Rightarrow> error + 'b list" where
  "map_indexed f i [] = Inr []"
| "map_indexed f i (x # xs) =
    (case f i x of Inl e \<Rightarrow> Inl e
     | Inr y \<Rightarrow> (case map_indexed f (Suc i) xs of Inl e \<Rightarrow> Inl e | Inr ys \<Rightarrow> Inr (y # ys)))"

text \<open>
  \<^verbatim>\<open>JiraClient.normalizeCustomSearchResult\<close>. \<^verbatim>\<open>issues.map\<close> is a function only when
  \<^verbatim>\<open>issues\<close> is an array.
\<close>

definition jira_normalizeCustomSearchResult ::
    "(nat \<Rightarrow> string \<times> string) \<Rightarrow> jv \<Rightarrow> int \<Rightarrow> int \<Rightarrow> error + jv" where
  "jira_normalizeCustomSearchResult clock customResult maxResults startAt =
    (if nullish customResult then Inl TypeError else
     let issues = or_js (or_js (or_js (js_prop customResult ''issues'') (js_prop customResult ''data''))
                    (js_prop customResult ''results'')) (JArr [])
     in case issues of
          JArr xs \<Rightarrow>
            (case map_indexed (\<lambda>i issue. normalizeCustomIssue (clock i) issue) 0 xs of
               Inl e \<Rightarrow> Inl e
             | Inr ys \<Rightarrow> Inr (JObj [
                 (''issues'', JArr ys),
                 (''total'', or_js (js_prop customResult ''total'') (JNum (int (length xs)))),
                 (''maxResults'', JNum maxResults),
                 (''startAt'', JNum startAt)]))
        | _ \<Rightarrow> Inl TypeError)"

section \<open>The wiki's normalizers\<close>

text \<open>
  \<^verbatim>\<open>normalizeCustomPage\<close>. Besides the reads on \<^verbatim>\<open>customPage\<close> itself two places can
  throw: \<^verbatim>\<open>customPage.space.key\<close>, read when \<^verbatim>\<open>typeof customPage.space === 'object'\<close>,
  which holds of null; and the template literal of \<^verbatim>\<open>_links.self\<close>. \<open>page_space\<close> is
  the initialiser of the \<^verbatim>\<open>space\<close> property, \<open>now\<close> holds the clock's readings for
  \<^verbatim>\<open>version.when\<close> and for \<^verbatim>\<open>history.createdDate\<close>.
\<close>

definition page_space :: "jv \<Rightarrow> error + jv" where
  "page_space customPage =
    (if truthy (or_js (js_prop customPage ''space'') (js_prop customPage ''space_key'')) then
             (case (if typeof_object (js_prop customPage ''space'')
                    then get (js_prop customPage ''space'') ''key''
                    else Inr (or_js (js_prop customPage ''space'') (js_prop customPage ''space_key''))) of
                Inl e \<Rightarrow> Inl e
              | Inr k \<Rightarrow>
                 (case (if typeof_object (js_prop customPage ''space'')
                        then get (js_prop customPage ''space'') ''name''
                        else Inr (or_js (js_prop customPage ''space'') (js_prop customPage ''space_key''))) of
                    Inl e \<Rightarrow> Inl e
                  | Inr n \<Rightarrow> Inr (JObj [(''key'', k), (''name'', n)])))
           else Inr JUndef)"

definition normalizeCustomPage :: "string \<times> string \<Rightarrow> jv \<Rightarrow> error + jv" where
  "normalizeCustomPage now customPage =
    (if nullish customPage then Inl TypeError else
     case page_space customPage of
       Inl e \<Rightarrow> Inl e
     | Inr space \<Rightarrow>
        (case to_str (or_js (js_prop customPage ''id'') (js_prop customPage ''page_id'')) of
           Inl e \<Rightarrow> Inl e
         | Inr ident \<Rightarrow> Inr (JObj [
            (''id'', or_js (or_js (js_prop customPage ''id'') (js_prop customPage ''page_id'')) (JStr [])),
            (''title'', or_js (or_js (js_prop customPage ''title'') (js_prop customPage ''name'')) (JStr [])),
            (''type'', JStr ''page''),
            (''status'', or_js (js_prop customPage ''status'') (JStr ''current'')),
            (''space'', space),
            (''body'', JObj [
              (''storage'', JObj [
                (''value'', or_js (or_js (or_js (js_prop customPage ''content'') (js_prop customPage ''body''))
                      (js_prop customPage ''text'')) (JStr [])),
                (''representation'', JStr ''storage'')]),
              (''view'', JObj [
                (''value'', or_js (or_js (or_js (js_prop customPage ''content'') (js_prop customPage ''body''))
                      (js_prop customPage ''text'')) (JStr [])),
                (''representation'', JStr ''view'')])]),
            (''version'', JObj [
              (''number'', or_js (or_js (js_prop customPage ''version'') (js_prop customPage ''revision'')) (JNum 1)),
              (''when'', or_js (or_js (js_prop customPage ''updated'') (js_prop customPage ''updated_at''))
                      (JStr (fst now))),
              (''by'', JObj [
                (''displayName'', or_js (or_js (js_prop customPage ''updated_by'') (js_prop customPage ''author''))
                      (JStr ''Unknown'')),
                (''email'', or_js (js_prop customPage ''updated_by_email'') (JStr []))])]),
            (''history'', JObj [
              (''createdDate'', or_js (or_js (js_prop customPage ''created'') (js_prop customPage ''created_at''))
                      (JStr (snd now))),
              (''createdBy'', JObj [
                (''displayName'', or_js (or_js (js_prop customPage ''created_by'') (js_prop customPage ''author''))
                      (JStr ''Unknown'')),
                (''email'', or_js (js_prop customPage ''created_by_email'') (JStr []))])]),
            (''_links'', JObj [
              (''webui'', or_js (or_js (js_prop customPage ''url'') (js_prop customPage ''link'')) (JStr [])),
              (''self'', JStr (''/rest/api/content/'' @ ident))])])))"

definition normalizeCustomSpace :: "jv \<Rightarrow> error + jv" where
  "normalizeCustomSpace customSpace =
    (if nullish customSpace then Inl TypeError else
     case to_str (or_js (js_prop customSpace ''key'') (js_prop customSpace ''id'')) of
       Inl e \<Rightarrow> Inl e
     | Inr ident \<Rightarrow> Inr (JObj [
        (''key'', or_js (or_js (or_js (js_prop customSpace ''key'') (js_prop customSpace ''id''))
              (js_prop customSpace ''code'')) (JStr [])),
        (''name'', or_js (or_js (js_prop customSpace ''name'') (js_prop customSpace ''title'')) (JStr [])),
        (''type'', or_js (js_prop customSpace ''type'') (JStr ''global'')),
        (''description'', JObj [
          (''plain'', JObj [
            (''value'', or_js (js_prop customSpace ''description'') (JStr []))])]),
        (''_links'', JObj [
          (''webui'', or_js (or_js (js_prop customSpace ''url'') (js_prop customSpace ''link'')) (JStr [])),
          (''self'', JStr (''/rest/api/space/'' @ ident))])]))"

text \<open>\<^verbatim>\<open>ConfluenceClient.normalizeCustomComment\<close>\<close>

definition confluence_normalizeCustomComment :: "string \<Rightarrow> jv \<Rightarrow> error + jv" where
  "confluence_normalizeCustomComment now customComment =
    (if nullish customComment then Inl TypeError else Inr (JObj [
      (''id'', or_js (or_js (js_prop customComment ''id'') (js_prop customComment ''comment_id'')) (JStr [])),
      (''type'', JStr ''comment''),
      (''title'', or_js (js_prop customComment ''title'') (JStr [])),
      (''body'', JObj [
        (''storage'', JObj [
          (''value'', or_js (or_js (or_js (js_prop customComment ''comment'') (js_prop customComment ''body''))
                (js_prop customComment ''content'')) (JStr [])),
          (''representation'', JStr ''storage'')])]),
      (''version'', JObj [
        (''number'', or_js (js_prop customComment ''version'') (JNum 1)),
        (''when'', or_js (or_js (js_prop customComment ''created'') (js_prop customComment ''created_at''))
                (JStr now)),
        (''by'', JObj [
          (''displayName'', or_js (or_js (or_js (js_prop customComment ''author'') (js_prop customComment ''user''))
                (js_prop customComment ''created_by'')) (JStr ''Unknown'')),
          (''email'', or_js (js_prop customComment ''author_email'') (JStr []))])])]))"

text \<open>\<^verbatim>\<open>ConfluenceClient.normalizeCustomSearchResult\<close>\<close>

definition confluence_normalizeCustomSearchResult ::
    "(nat \<Rightarrow> string \<times> string) \<Rightarrow> jv \<Rightarrow> int \<Rightarrow> int \<Rightarrow> error + jv" where
  "confluence_normalizeCustomSearchResult clock customResult limit start =
    (if nullish customResult then Inl TypeError else
     let pages = or_js (or_js (or_js (js_prop customResult ''pages'') (js_prop customResult ''data''))
                    (js_prop customResult ''results'')) (JArr [])
     in case pages of
          JArr xs \<Rightarrow>
            (case map_indexed (\<lambda>i page. normalizeCustomPage (clock i) page) 0 xs of
               Inl e \<Rightarrow> Inl e
             | Inr ys \<Rightarrow> Inr (JObj [
                 (''results'', JArr ys),
                 (''start'', JNum start),
                 (''limit'', JNum limit),
                 (''size'', JNum (int (length xs)))]))
        | _ \<Rightarrow> Inl TypeError)"

section \<open>Regular expressions of the query degraders\<close>

text \<open>
  The character classes of the patterns, on the code units below 256: \<^verbatim>\<open>\s\<close> (tab, line
  feed, vertical tab, form feed, carriage return, space, no-break space), \<^verbatim>\<open>\w\<close> for
  the word boundary \<^verbatim>\<open>\b\<close>, and the two quote characters of \<^verbatim>\<open>['"]\<close>.
\<close>

definition is_space :: "char \<Rightarrow> bool" where
  "is_space c = (c \<in> set [CHR 0x09, CHR 0x0A, CHR 0x0B, CHR 0x0C, CHR 0x0D, CHR 0x20, CHR 0xA0])"

definition is_word :: "char \<Rightarrow> bool" where
  "is_word c = (let n = (of_char c :: nat) in
     (48 \<le> n \<and> n \<le> 57) \<or> (65 \<le> n \<and> n \<le> 90) \<or> n = 95 \<or> (97 \<le> n \<and> n \<le> 122))"

definition is_quote :: "char \<Rightarrow> bool" where
  "is_quote c = (c = CHR 0x22 \<or> c = CHR 0x27)"

text \<open>
  Matching under the flag \<^verbatim>\<open>i\<close> compares characters after canonicalization. The
  literals of the patterns are ASCII letters and \<^verbatim>\<open>=\<close>, and no character from 128 on
  canonicalizes to an ASCII one, so folding \<^verbatim>\<open>a\<close>..\<^verbatim>\<open>z\<close> to upper case decides every
  comparison the patterns make.
\<close>

definition canonicalize :: "char \<Rightarrow> char" where
  "canonicalize c = (let n = (of_char c :: nat) in if 97 \<le> n \<and> n \<le> 122 then char_of (n - 32) else c)"

text \<open>
  \<^verbatim>\<open>s.toLowerCase()\<close> on the code units below 256.
\<close>

definition toLowerCase :: "string \<Rightarrow> string" where
  "toLowerCase s = map (\<lambda>c. let n = (of_char c :: nat) in
      if (65 \<le> n \<and> n \<le> 90) \<or> (192 \<le> n \<and> n \<le> 214) \<or> (216 \<le> n \<and> n \<le> 222)
      then char_of (n + 32) else c) s"

text \<open>
  A pattern is a sequence of items: a literal, an alternation of literals, a character
  class under \<^verbatim>\<open>*\<close>, \<^verbatim>\<open>+\<close> or \<^verbatim>\<open>?\<close> (all greedy), the word boundary, and the
  parentheses of the capture group whose text the code reads.
\<close>

datatype cls = Space | NonSpace | Quote | NonQuote

fun in_cls :: "cls \<Rightarrow> char \<Rightarrow> bool" where
  "in_cls Space c = is_space c"
| "in_cls NonSpace c = (\<not> is_space c)"
| "in_cls Quote c = is_quote c"
| "in_cls NonQuote c = (\<not> is_quote c)"

datatype rx =
    Lit string
  | Alt "string list"
  | Star cls
  | Plus cls
  | Opt cls
  | WordB
  | Open
  | Close

text \<open>
  The matcher backtracks as the language defines: an alternation tries its branches in
  order, a greedy quantifier tries the longest run first and gives characters back one by
  one, each time with the rest of the pattern as continuation. A position is the character
  before it (for \<^verbatim>\<open>\b\<close>) and the input from it on. \<open>rmatch r p s g c\<close> matches \<open>r\<close> at
  that position; \<open>g\<close> is the input at the opening parenthesis and \<open>c\<close> the capture; the result
  is the input left after the match and the capture.
\<close>

fun first_some :: "'a option list \<Rightarrow> 'a option" where
  "first_some [] = None"
| "first_some (Some x # xs) = Some x"
| "first_some (None # xs) = first_some xs"

fun lit_ci :: "string \<Rightarrow> char option \<Rightarrow> string \<Rightarrow> (char option \<times> string) option" where
  "lit_ci [] p s = Some (p, s)"
| "lit_ci (a # as) p [] = None"
| "lit_ci (a # as) p (c # cs) = (if canonicalize a = canonicalize c then lit_ci as (Some c) cs else None)"

fun runs :: "cls \<Rightarrow> char option \<Rightarrow> string \<Rightarrow> (char option \<times> string) list" where
  "runs k p [] = [(p, [])]"
| "runs k p (c # cs) = (if in_cls k c then runs k (Some c) cs @ [(p, c # cs)] else [(p, c # cs)])"

definition at_boundary :: "char option \<Rightarrow> string \<Rightarrow> bool" where
  "at_boundary p s =
     ((case p of None \<Rightarrow> False | Some c \<Rightarrow> is_word c) \<noteq> (case s of [] \<Rightarrow> False | c # cs \<Rightarrow> is_word c))"

fun rmatch :: "rx list \<Rightarrow> char option \<Rightarrow> string \<Rightarrow> string \<Rightarrow> string \<Rightarrow> (string \<times> string) option" where
  "rmatch [] p s g c = Some (s, c)"
| "rmatch (Lit l # r) p s g c =
    (case lit_ci l p s of None \<Rightarrow> None | Some (p', s') \<Rightarrow> rmatch r p' s' g c)"
| "rmatch (Alt ls # r) p s g c =
    first_some (map (\<lambda>l. case lit_ci l p s of None \<Rightarrow> None | Some (p', s') \<Rightarrow> rmatch r p' s' g c) ls)"
| "rmatch (Star k # r) p s g c =
    first_some (map (\<lambda>(p', s'). rmatch r p' s' g c) (runs k p s))"
| "rmatch (Plus k # r) p s g c =
    first_some (map (\<lambda>(p', s'). rmatch r p' s' g c) (butlast (runs k p s)))"
| "rmatch (Opt k # r) p s g c =
    first_some (map (\<lambda>(p', s'). rmatch r p' s' g c)
      (case s of [] \<Rightarrow> [(p, s)] | x # xs \<Rightarrow> if in_cls k x then [(Some x, xs), (p, s)] else [(p, s)]))"
| "rmatch (WordB # r) p s g c = (if at_boundary p s then rmatch r p s g c else None)"
| "rmatch (Open # r) p s g c = rmatch r p s s c"
| "rmatch (Close # r) p s g c = rmatch r p s g (take (length g - length s) g)"

text \<open>
  \<^verbatim>\<open>s.match(re)\<close> without the flag \<^verbatim>\<open>g\<close>: the leftmost position where the pattern
  matches; the result is the capture, \<^verbatim>\<open>m[1]\<close>, or \<open>None\<close> for \<^verbatim>\<open>null\<close>.
\<close>

fun str_match :: "rx list \<Rightarrow> char option \<Rightarrow> string \<Rightarrow> string option" where
  "str_match r p [] = (case rmatch r p [] [] [] of None \<Rightarrow> None | Some (s', c) \<Rightarrow> Some c)"
| "str_match r p (x # xs) =
    (case rmatch r p (x # xs) [] [] of
       None \<Rightarrow> str_match r (Some x) xs
     | Some (s', c) \<Rightarrow> Some c)"

text \<open>
  \<^verbatim>\<open>s.replace(re, ...)\<close> with the flag \<^verbatim>\<open>g\<close>: from left to right every match is
  replaced by \<open>f\<close> of its capture, and the search goes on behind the match (\<open>skip\<close> counts
  the characters of the match still to pass; after an empty match the next character is
  copied).
\<close>

fun replace_all :: "rx list \<Rightarrow> (string \<Rightarrow> string) \<Rightarrow> nat \<Rightarrow> char option \<Rightarrow> string \<Rightarrow> string" where
  "replace_all r f skip p [] =
    (if 0 < skip then []
     else (case rmatch r p [] [] [] of None \<Rightarrow> [] | Some (s', c) \<Rightarrow> f c))"
| "replace_all r f skip p (x # xs) =
    (if 0 < skip then replace_all r f (skip - 1) (Some x) xs
     else (case rmatch r p (x # xs) [] [] of
        None \<Rightarrow> x # replace_all r f 0 (Some x) xs
      | Some (s', c) \<Rightarrow>
          (let n = length (x # xs) - length s'
           in if n = 0 then f c @ x # replace_all r f 0 (Some x) xs
              else f c @ replace_all r f (n - 1) (Some x) xs)))"

text \<open>
  \<^verbatim>\<open>/project\s*=\s*([^\s]+)/i\<close> and its two siblings for \<^verbatim>\<open>status\<close> and
  \<^verbatim>\<open>assignee\<close>.
\<close>

definition clause_rx :: "string \<Rightarrow> rx list" where
  "clause_rx kw = [Lit kw, Star Space, Lit ''='', Star Space, Open, Plus NonSpace, Close]"

text \<open>
  \<^verbatim>\<open>.replace(/['"]/g, '')\<close> and \<^verbatim>\<open>.replace(/"/g, '')\<close>
\<close>

definition strip_quotes :: "string \<Rightarrow> string" where
  "strip_quotes s = filter (\<lambda>c. c \<noteq> CHR 0x27 \<and> c \<noteq> CHR 0x22) s"

definition strip_double_quotes :: "string \<Rightarrow> string" where
  "strip_double_quotes s = filter (\<lambda>c. c \<noteq> CHR 0x22) s"

text \<open>
  \<^verbatim>\<open>parseJqlToFilters\<close>. The filters object is the list of its properties in the order
  they are assigned. \<^verbatim>\<open>jqlLower\<close> is computed and never read; the three matches run on
  \<^verbatim>\<open>jql\<close> itself.
\<close>

definition parseJqlToFilters :: "string \<Rightarrow> (string \<times> string) list" where
  "parseJqlToFilters jql =
    (let filters = [];
         jqlLower = toLowerCase jql;
         projectMatch = str_match (clause_rx ''project'') None jql;
         filters = (case projectMatch of None \<Rightarrow> filters
                    | Some m \<Rightarrow> filters @ [(''project'', strip_quotes m)]);
         statusMatch = str_match (clause_rx ''status'') None jql;
         filters = (case statusMatch of None \<Rightarrow> filters
                    | Some m \<Rightarrow> filters @ [(''status'', strip_double_quotes (strip_quotes m))]);
         assigneeMatch = str_match (clause_rx ''assignee'') None jql;
         filters = (case assigneeMatch of None \<Rightarrow> filters
                    | Some m \<Rightarrow>
                       (let assignee = strip_quotes m;
                            assignee = (if assignee = ''currentuser()'' then ''me'' else assignee)
                        in filters @ [(''assignee'', assignee)]))
     in filters)"

text \<open>
  \<^verbatim>\<open>query.split()\<close>: with no separator the result is the array of the one string.
\<close>

definition split_no_separator :: "string \<Rightarrow> string list" where
  "split_no_separator s = [s]"

text \<open>
  \<^verbatim>\<open>parseCqlToSimpleQuery\<close>, with the patterns \<^verbatim>\<open>/\b(and|or|not)\b/gi\<close> and
  \<^verbatim>\<open>/(space|type|title|text)\s*=\s*["']?([^"']+)["']?/gi\<close>, the second replaced by
  \<^verbatim>\<open>$2\<close>.
\<close>

definition parseCqlToSimpleQuery :: "string \<Rightarrow> string" where
  "parseCqlToSimpleQuery cql =
    (let query = replace_all [WordB, Alt [''and'', ''or'', ''not''], WordB] (\<lambda>c. '' '') 0 None cql;
         query = replace_all [Alt [''space'', ''type'', ''title'', ''text''], Star Space, Lit ''='', Star Space,
                              Opt Quote, Open, Plus NonQuote, Close, Opt Quote] (\<lambda>c. c) 0 None query
     in join_str '' '' (filter (\<lambda>term. 2 < length term) (split_no_separator query)))"

section \<open>The lookups over HTTP\<close>

text \<open>
  The configuration the client reads, and a request of the HTTP client: \<^verbatim>\<open>client.get(url,
  {params})\<close>. The upstream is a function from requests to what \<^verbatim>\<open>await\<close> gives: the
  rejection, or \<^verbatim>\<open>response.data\<close>.
\<close>

record config =
  useCustomApi :: bool
  customApiVersion :: string
  maxResultsDefault :: int

datatype request = Get string "(string \<times> jv) list"

text \<open>
  \<^verbatim>\<open>try { ... } catch (error) { throw new Error(`prefix: ${error.message}`) }\<close>
\<close>

definition rethrow :: "string \<Rightarrow> error + 'a \<Rightarrow> error + 'a" where
  "rethrow prefix r = (case r of Inl e \<Rightarrow> Inl (Failed prefix e) | Inr x \<Rightarrow> Inr x)"

text \<open>
  \<^verbatim>\<open>v.length\<close> and \<^verbatim>\<open>v[0]\<close> for a truthy \<open>v\<close>.
\<close>

definition length_of :: "jv \<Rightarrow> jv" where
  "length_of v = (case v of
      JArr xs \<Rightarrow> JNum (int (length xs))
    | JStr s \<Rightarrow> JNum (int (length s))
    | JObj kvs \<Rightarrow> js_prop v ''length''
    | JFun f \<Rightarrow> JNum 1
    | _ \<Rightarrow> JUndef)"

definition index0 :: "jv \<Rightarrow> jv" where
  "index0 v = (case v of
      JArr xs \<Rightarrow> (case xs of [] \<Rightarrow> JUndef | x # _ \<Rightarrow> x)
    | JStr s \<Rightarrow> (case s of [] \<Rightarrow> JUndef | c # _ \<Rightarrow> JStr [c])
    | JObj kvs \<Rightarrow> js_prop v ''0''
    | _ \<Rightarrow> JUndef)"

text \<open>
  \<^verbatim>\<open>v > 0\<close>. A string is compared through its conversion to a number, which is floating
  point; \<open>str_positive s\<close> stands for "the number \<open>s\<close> converts to is greater than 0" and
  is left to the engine. An array converts through its string, an object to \<^verbatim>\<open>NaN\<close>
  unless the conversion throws.
\<close>

definition gt_zero :: "(string \<Rightarrow> bool) \<Rightarrow> jv \<Rightarrow> error + bool" where
  "gt_zero str_positive v = (case v of
      JUndef \<Rightarrow> Inr False
    | JNull \<Rightarrow> Inr False
    | JBool b \<Rightarrow> Inr b
    | JNum n \<Rightarrow> Inr (0 < n)
    | JStr s \<Rightarrow> Inr (str_positive s)
    | JArr xs \<Rightarrow> (case to_str v of Inl e \<Rightarrow> Inl e | Inr s \<Rightarrow> Inr (str_positive s))
    | JObj kvs \<Rightarrow> (case to_str v of Inl e \<Rightarrow> Inl e | Inr s \<Rightarrow> Inr False)
    | JFun f \<Rightarrow> Inr False)"

text \<open>
  \<^verbatim>\<open>getPageByTitle\<close>. \<^verbatim>\<open>toLowerCase\<close> is a method of strings only: on any other
  truthy title the call throws.
\<close>

definition getPageByTitle ::
    "(string \<Rightarrow> bool) \<Rightarrow> config \<Rightarrow> (request \<Rightarrow> error + jv) \<Rightarrow> string \<times> string \<Rightarrow>
     string \<Rightarrow> string \<Rightarrow> string list \<Rightarrow> error + jv" where
  \<open>getPageByTitle str_positive cfg http now spaceKey title expand =
    rethrow (''Failed to get page "'' @ title @ ''" in space '' @ spaceKey)
     (if useCustomApi cfg then
        (case http (Get (''/'' @ customApiVersion cfg @ ''/pages/search'')
                     [(''q'', JStr title), (''space'', JStr spaceKey), (''limit'', JNum 1)]) of
           Inl e \<Rightarrow> Inl e
         | Inr data \<Rightarrow>
            if nullish data then Inl TypeError else
            let pages = or_js (or_js (or_js (js_prop data ''pages'') (js_prop data ''data''))
                          (js_prop data ''results'')) (JArr [])
            in (case gt_zero str_positive (length_of pages) of
                  Inl e \<Rightarrow> Inl e
                | Inr False \<Rightarrow> Inr JNull
                | Inr True \<Rightarrow>
                   (let page = index0 pages
                    in if nullish page then Inl TypeError else
                       (case or_js (or_js (js_prop page ''title'') (js_prop page ''name'')) (JStr []) of
                          JStr pageTitle \<Rightarrow>
                            if toLowerCase pageTitle = toLowerCase title
                            then normalizeCustomPage now page
                            else Inr JNull
                        | _ \<Rightarrow> Inl TypeError))))
      else
        (case http (Get ''/content''
                     [(''spaceKey'', JStr spaceKey), (''title'', JStr title),
                      (''expand'', JStr (join_str '','' expand))]) of
           Inl e \<Rightarrow> Inl e
         | Inr data \<Rightarrow>
            if nullish data then Inl TypeError else
            let results = or_js (js_prop data ''results'') (JArr [])
            in (case gt_zero str_positive (length_of results) of
                  Inl e \<Rightarrow> Inl e
                | Inr b \<Rightarrow> Inr (if b then index0 results else JNull))))\<close>

text \<open>
  \<^verbatim>\<open>getSpaces\<close> and \<^verbatim>\<open>getSpace\<close>, which calls it with the default limit.
\<close>

definition getSpaces :: "config \<Rightarrow> (request \<Rightarrow> error + jv) \<Rightarrow> int \<Rightarrow> error + jv" where
  "getSpaces cfg http limit =
    rethrow ''Failed to get spaces''
     (if useCustomApi cfg then
        (case http (Get (''/'' @ customApiVersion cfg @ ''/spaces'') [(''limit'', JNum limit)]) of
           Inl e \<Rightarrow> Inl e
         | Inr data \<Rightarrow>
            if nullish data then Inl TypeError else
            (case or_js (or_js (js_prop data ''spaces'') (js_prop data ''data'')) (JArr []) of
               JArr xs \<Rightarrow>
                 (case sequence (map normalizeCustomSpace xs) of
                    Inl e \<Rightarrow> Inl e
                  | Inr ys \<Rightarrow> Inr (JArr ys))
             | _ \<Rightarrow> Inl TypeError))
      else
        (case http (Get ''/space'' [(''limit'', JNum limit)]) of
           Inl e \<Rightarrow> Inl e
         | Inr data \<Rightarrow>
            if nullish data then Inl TypeError
            else Inr (or_js (js_prop data ''results'') (JArr []))))"

definition getSpace :: "config \<Rightarrow> (request \<Rightarrow> error + jv) \<Rightarrow> string \<Rightarrow> error + jv" where
  "getSpace cfg http spaceKey =
    rethrow (''Failed to get space '' @ spaceKey)
     (if useCustomApi cfg then
        (case getSpaces cfg http (maxResultsDefault cfg) of
           Inl e \<Rightarrow> Inl e
         | Inr spaces \<Rightarrow>
            (case spaces of
               JArr xs \<Rightarrow>
                 (let space = (case find (\<lambda>s. js_prop s ''key'' = JStr spaceKey \<or>
                                             js_prop s ''name'' = JStr spaceKey) xs of
                                 None \<Rightarrow> JUndef | Some s \<Rightarrow> s)
                  in if \<not> truthy space
                     then Inl (Err (''Space '' @ spaceKey @ '' not found''))
                     else Inr space)
             | _ \<Rightarrow> Inl TypeError))
      else
        (case http (Get (''/space/'' @ spaceKey) [(''expand'', JStr ''description,homepage'')]) of
           Inl e \<Rightarrow> Inl e
         | Inr data \<Rightarrow> Inr data))"

section \<open>Reading results\<close>

text \<open>
  The value at a path of property names in an entity, and in the result of a normalizer
  (\<open>None\<close> when it threw).
\<close>

fun field_at :: "jv \<Rightarrow> string list \<Rightarrow> jv" where
  "field_at v [] = v"
| "field_at v (k # ks) = field_at (js_prop v k) ks"

definition field_of :: "error + jv \<Rightarrow> string list \<Rightarrow> jv option" where
  "field_of r path = (case r of Inl e \<Rightarrow> None | Inr v \<Rightarrow> Some (field_at v path))"

text \<open>
  The first value of a list that is truthy, or the default: what a chain
  \<^verbatim>\<open>a || b || d\<close> computes. \<open>first_present\<close> follows the words of the specification
  instead: the first value that is present and not null.
\<close>

fun first_truthy :: "jv list \<Rightarrow> jv \<Rightarrow> jv" where
  "first_truthy [] d = d"
| "first_truthy (x # xs) d = (if truthy x then x else first_truthy xs d)"

fun first_present :: "jv list \<Rightarrow> jv \<Rightarrow> jv" where
  "first_present [] d = d"
| "first_present (x # xs) d = (if nullish x then first_present xs d else x)"

text \<open>
  A normalizer applied to its own output.
\<close>

definition twice :: "(jv \<Rightarrow> error + jv) \<Rightarrow> jv \<Rightarrow> error + jv" where
  "twice f x = (case f x of Inl e \<Rightarrow> Inl e | Inr y \<Rightarrow> f y)"

text \<open>
  For each normalizer: the property names it reads from the raw object, the entity it
  returns when the raw object has none of them, and the paths of the fields that are not
  optional.
\<close>

definition issue_keys :: "string list" where
  "issue_keys = [''id'', ''issue_id'', ''key'', ''number'', ''title'', ''summary'', ''name'',
     ''description'', ''body'', ''content'', ''status'', ''state'', ''status_id'', ''assignee'',
     ''reporter'', ''created_by'', ''created'', ''created_at'', ''updated'', ''updated_at'',
     ''priority'', ''priority_id'', ''type'', ''issue_type'', ''type_id'', ''project'',
     ''project_key'', ''project_name'', ''labels'', ''tags'']"

definition issue_defaults :: "string \<times> string \<Rightarrow> jv" where
  "issue_defaults now = JObj [
     (''id'', JStr []), (''key'', JStr []),
     (''fields'', JObj [
       (''summary'', JStr []), (''description'', JUndef),
       (''status'', JObj [(''name'', JStr ''Unknown''), (''id'', JStr ''1'')]),
       (''assignee'', JUndef), (''reporter'', JUndef),
       (''created'', JStr (fst now)), (''updated'', JStr (snd now)),
       (''priority'', JUndef),
       (''issuetype'', JObj [(''name'', JStr ''Task''), (''id'', JStr ''1'')]),
       (''project'', JObj [(''key'', JStr []), (''name'', JStr [])]),
       (''labels'', JArr [])])]"

definition issue_required :: "string list list" where
  "issue_required = [[''id''], [''key''], [''fields'', ''summary''],
     [''fields'', ''status'', ''name''], [''fields'', ''status'', ''id''],
     [''fields'', ''created''], [''fields'', ''updated''],
     [''fields'', ''issuetype'', ''name''], [''fields'', ''issuetype'', ''id''],
     [''fields'', ''project'', ''key''], [''fields'', ''project'', ''name''],
     [''fields'', ''labels'']]"

definition page_keys :: "string list" where
  "page_keys = [''id'', ''page_id'', ''title'', ''name'', ''status'', ''space'', ''space_key'',
     ''content'', ''body'', ''text'', ''version'', ''revision'', ''updated'', ''updated_at'',
     ''updated_by'', ''author'', ''updated_by_email'', ''created'', ''created_at'', ''created_by'',
     ''created_by_email'', ''url'', ''link'']"

definition page_defaults :: "string \<times> string \<Rightarrow> jv" where
  "page_defaults now = JObj [
     (''id'', JStr []), (''title'', JStr []), (''type'', JStr ''page''),
     (''status'', JStr ''current''), (''space'', JUndef),
     (''body'', JObj [
       (''storage'', JObj [(''value'', JStr []), (''representation'', JStr ''storage'')]),
       (''view'', JObj [(''value'', JStr []), (''representation'', JStr ''view'')])]),
     (''version'', JObj [
       (''number'', JNum 1), (''when'', JStr (fst now)),
       (''by'', JObj [(''displayName'', JStr ''Unknown''), (''email'', JStr [])])]),
     (''history'', JObj [
       (''createdDate'', JStr (snd now)),
       (''createdBy'', JObj [(''displayName'', JStr ''Unknown''), (''email'', JStr [])])]),
     (''_links'', JObj [
       (''webui'', JStr []), (''self'', JStr ''/rest/api/content/undefined'')])]"

definition page_required :: "string list list" where
  "page_required = [[''id''], [''title''], [''type''], [''status''],
     [''body'', ''storage'', ''value''], [''body'', ''storage'', ''representation''],
     [''body'', ''view'', ''value''], [''body'', ''view'', ''representation''],
     [''version'', ''number''], [''version'', ''when''],
     [''version'', ''by'', ''displayName''], [''version'', ''by'', ''email''],
     [''history'', ''createdDate''],
     [''history'', ''createdBy'', ''displayName''], [''history'', ''createdBy'', ''email''],
     [''_links'', ''webui''], [''_links'', ''self'']]"

definition comment_keys :: "string list" where
  "comment_keys = [''id'', ''comment_id'', ''title'', ''author'', ''user'', ''created_by'',
     ''author_email'', ''comment'', ''body'', ''content'', ''version'', ''created'', ''created_at'',
     ''updated'', ''updated_at'']"

definition jira_comment_defaults :: "string \<times> string \<Rightarrow> jv" where
  "jira_comment_defaults now = JObj [
     (''id'', JStr []),
     (''author'', JObj [(''displayName'', JStr ''Unknown''), (''emailAddress'', JStr [])]),
     (''body'', JStr []),
     (''created'', JStr (fst now)), (''updated'', JStr (snd now))]"

definition jira_comment_required :: "string list list" where
  "jira_comment_required = [[''id''], [''author'', ''displayName''], [''author'', ''emailAddress''],
     [''body''], [''created''], [''updated'']]"

definition confluence_comment_defaults :: "string \<Rightarrow> jv" where
  "confluence_comment_defaults now = JObj [
     (''id'', JStr []), (''type'', JStr ''comment''), (''title'', JStr []),
     (''body'', JObj [
       (''storage'', JObj [(''value'', JStr []), (''representation'', JStr ''storage'')])]),
     (''version'', JObj [
       (''number'', JNum 1), (''when'', JStr now),
       (''by'', JObj [(''displayName'', JStr ''Unknown''), (''email'', JStr [])])])]"

definition confluence_comment_required :: "string list list" where
  "confluence_comment_required = [[''id''], [''type''], [''title''],
     [''body'', ''storage'', ''value''], [''body'', ''storage'', ''representation''],
     [''version'', ''number''], [''version'', ''when''],
     [''version'', ''by'', ''displayName''], [''version'', ''by'', ''email'']]"

definition project_keys :: "string list" where
  "project_keys = [''id'', ''project_id'', ''key'', ''code'', ''name'', ''title'', ''description'',
     ''lead'', ''owner'']"

definition project_defaults :: jv where
  "project_defaults = JObj [
     (''id'', JStr []), (''key'', JStr []), (''name'', JStr []), (''description'', JStr []),
     (''lead'', JUndef)]"

definition project_required :: "string list list" where
  "project_required = [[''id''], [''key''], [''name''], [''description'']]"

definition space_keys :: "string list" where
  "space_keys = [''key'', ''id'', ''code'', ''name'', ''title'', ''type'', ''description'',
     ''url'', ''link'']"

definition space_defaults :: jv where
  "space_defaults = JObj [
     (''key'', JStr []), (''name'', JStr []), (''type'', JStr ''global''),
     (''description'', JObj [(''plain'', JObj [(''value'', JStr [])])]),
     (''_links'', JObj [
       (''webui'', JStr []), (''self'', JStr ''/rest/api/space/undefined'')])]"

definition space_required :: "string list list" where
  "space_required = [[''key''], [''name''], [''type''], [''description'', ''plain'', ''value''],
     [''_links'', ''webui''], [''_links'', ''self'']]"

text \<open>
  The alias tables of the issue and of the page: the path of a canonical field, the
  aliases in the order the code tries them, and the default. Issue \<^verbatim>\<open>description\<close> and the
  nested entities are not in the tables: they have no default of their own.
\<close>

definition issue_aliases :: "string \<times> string \<Rightarrow> (string list \<times> string list \<times> jv) list" where
  "issue_aliases now = [
     ([''id''], [''id'', ''issue_id''], JStr []),
     ([''key''], [''key'', ''id'', ''number''], JStr []),
     ([''fields'', ''summary''], [''title'', ''summary'', ''name''], JStr []),
     ([''fields'', ''status'', ''name''], [''status'', ''state''], JStr ''Unknown''),
     ([''fields'', ''status'', ''id''], [''status_id'', ''status''], JStr ''1''),
     ([''fields'', ''created''], [''created'', ''created_at''], JStr (fst now)),
     ([''fields'', ''updated''], [''updated'', ''updated_at''], JStr (snd now)),
     ([''fields'', ''issuetype'', ''name''], [''type'', ''issue_type''], JStr ''Task''),
     ([''fields'', ''issuetype'', ''id''], [''type_id''], JStr ''1''),
     ([''fields'', ''project'', ''key''], [''project'', ''project_key''], JStr []),
     ([''fields'', ''project'', ''name''], [''project_name'', ''project''], JStr []),
     ([''fields'', ''labels''], [''labels'', ''tags''], JArr [])]"

definition page_aliases :: "string \<times> string \<Rightarrow> (string list \<times> string list \<times> jv) list" where
  "page_aliases now = [
     ([''id''], [''id'', ''page_id''], JStr []),
     ([''title''], [''title'', ''name''], JStr []),
     ([''type''], [], JStr ''page''),
     ([''status''], [''status''], JStr ''current''),
     ([''body'', ''storage'', ''value''], [''content'', ''body'', ''text''], JStr []),
     ([''body'', ''storage'', ''representation''], [], JStr ''storage''),
     ([''body'', ''view'', ''value''], [''content'', ''body'', ''text''], JStr []),
     ([''body'', ''view'', ''representation''], [], JStr ''view''),
     ([''version'', ''number''], [''version'', ''revision''], JNum 1),
     ([''version'', ''when''], [''updated'', ''updated_at''], JStr (fst now)),
     ([''version'', ''by'', ''displayName''], [''updated_by'', ''author''], JStr ''Unknown''),
     ([''version'', ''by'', ''email''], [''updated_by_email''], JStr []),
     ([''history'', ''createdDate''], [''created'', ''created_at''], JStr (snd now)),
     ([''history'', ''createdBy'', ''displayName''], [''created_by'', ''author''], JStr ''Unknown''),
     ([''history'', ''createdBy'', ''email''], [''created_by_email''], JStr []),
     ([''_links'', ''webui''], [''url'', ''link''], JStr [])]"

text \<open>
  Inputs for the examples: a clock, the two configurations, an upstream whose result sets
  are all empty, and a string conversion under which no string is a positive number.
\<close>

definition standing_clock :: "nat \<Rightarrow> string \<times> string" where
  "standing_clock i = (''2024-01-01T00:00:00.000Z'', ''2024-01-01T00:00:00.000Z'')"

definition custom_api :: config where
  "custom_api = \<lparr>useCustomApi = True, customApiVersion = ''v1'', maxResultsDefault = 25\<rparr>"

definition standard_api :: config where
  "standard_api = \<lparr>useCustomApi = False, customApiVersion = ''v1'', maxResultsDefault = 25\<rparr>"

definition empty_upstream :: "request \<Rightarrow> error + jv" where
  "empty_upstream r = Inr (JObj [(''pages'', JArr []), (''results'', JArr []), (''spaces'', JArr [])])"

definition no_numeric_strings :: "string \<Rightarrow> bool" where
  "no_numeric_strings s = False"

text \<open>
  Splitting at white space, and the page degrader as the specification words it: the same
  two replacements, then the tokens longer than two characters, joined by spaces.
\<close>

fun tokens :: "string \<Rightarrow> string \<Rightarrow> string list" where
  "tokens cur [] = (if cur = [] then [] else [rev cur])"
| "tokens cur (c # cs) =
    (if is_space c then (if cur = [] then tokens [] cs else rev cur # tokens [] cs)
     else tokens (c # cur) cs)"

definition cql_as_specified :: "string \<Rightarrow> string" where
  "cql_as_specified cql =
    (let query = replace_all [WordB, Alt [''and'', ''or'', ''not''], WordB] (\<lambda>c. '' '') 0 None cql;
         query = replace_all [Alt [''space'', ''type'', ''title'', ''text''], Star Space, Lit ''='', Star Space,
                              Opt Quote, Open, Plus NonQuote, Close, Opt Quote] (\<lambda>c. c) 0 None query
     in join_str '' '' (filter (\<lambda>term. 2 < length term) (tokens [] query)))"

text \<open>
  A clause of the keyword \<open>kw\<close> read off the string directly; these two functions are no
  part of the code, they say in words of lists what its three patterns find (lemma
  \<open>str_match_clause\<close>). \<open>clause_at kw s\<close>: \<open>s\<close> begins with the keyword in any case,
  then optional white space, \<^verbatim>\<open>=\<close>, optional white space, and the value: the characters
  up to the next white space, at least one. \<open>first_clause kw s\<close> is the value at the first
  place of \<open>s\<close> where such a clause begins.
\<close>

definition clause_at :: "string \<Rightarrow> string \<Rightarrow> string option" where
  "clause_at kw s =
     (if length kw \<le> length s \<and> map canonicalize (take (length kw) s) = map canonicalize kw then
        (case dropWhile is_space (drop (length kw) s) of
           [] \<Rightarrow> None
         | c # r \<Rightarrow>
             if c = CHR ''='' then
               (let v = takeWhile (\<lambda>c. \<not> is_space c) (dropWhile is_space r)
                in if v = [] then None else Some v)
             else None)
      else None)"

fun first_clause :: "string \<Rightarrow> string \<Rightarrow> string option" where
  "first_clause kw [] = clause_at kw []"
| "first_clause kw (x # xs) =
     (case clause_at kw (x # xs) of Some v \<Rightarrow> Some v | None \<Rightarrow> first_clause kw xs)"

text \<open>
  The alias tables of the two comment normalizers, of the project and of the space. A
  field with no alias is a constant. The project's \<^verbatim>\<open>lead\<close> and the space's
  \<^verbatim>\<open>_links.self\<close> are not in the tables.
\<close>

definition jira_comment_aliases :: "string \<times> string \<Rightarrow> (string list \<times> string list \<times> jv) list" where
  "jira_comment_aliases now = [
     ([''id''], [''id'', ''comment_id''], JStr []),
     ([''author'', ''displayName''], [''author'', ''user'', ''created_by''], JStr ''Unknown''),
     ([''author'', ''emailAddress''], [''author_email''], JStr []),
     ([''body''], [''comment'', ''body'', ''content''], JStr []),
     ([''created''], [''created'', ''created_at''], JStr (fst now)),
     ([''updated''], [''updated'', ''updated_at''], JStr (snd now))]"

definition confluence_comment_aliases :: "string \<Rightarrow> (string list \<times> string list \<times> jv) list" where
  "confluence_comment_aliases now = [
     ([''id''], [''id'', ''comment_id''], JStr []),
     ([''type''], [], JStr ''comment''),
     ([''title''], [''title''], JStr []),
     ([''body'', ''storage'', ''value''], [''comment'', ''body'', ''content''], JStr []),
     ([''body'', ''storage'', ''representation''], [], JStr ''storage''),
     ([''version'', ''number''], [''version''], JNum 1),
     ([''version'', ''when''], [''created'', ''created_at''], JStr now),
     ([''version'', ''by'', ''displayName''], [''author'', ''user'', ''created_by''], JStr ''Unknown''),
     ([''version'', ''by'', ''email''], [''author_email''], JStr [])]"

definition project_aliases :: "(string list \<times> string list \<times> jv) list" where
  "project_aliases = [
     ([''id''], [''id'', ''project_id''], JStr []),
     ([''key''], [''key'', ''code'', ''id''], JStr []),
     ([''name''], [''name'', ''title''], JStr []),
     ([''description''], [''description''], JStr [])]"

definition space_aliases :: "(string list \<times> string list \<times> jv) list" where
  "space_aliases = [
     ([''key''], [''key'', ''id'', ''code''], JStr []),
     ([''name''], [''name'', ''title''], JStr []),
     ([''type''], [''type''], JStr ''global''),
     ([''description'', ''plain'', ''value''], [''description''], JStr []),
     ([''_links'', ''webui''], [''url'', ''link''], JStr [])]"

section \<open>Auxiliary facts\<close>

lemma js_prop_Nil: "js_prop (JObj []) k = JUndef"
  by (simp add: js_prop_def)

lemma js_prop_Cons: "js_prop (JObj ((k', v) # kvs)) k = (if k = k' then v else js_prop (JObj kvs) k)"
  by (simp add: js_prop_def)

lemma truthy_simps:
  "truthy JUndef = False" "truthy JNull = False" "truthy (JBool b) = b" "truthy (JNum n) = (n \<noteq> 0)"
  "truthy (JStr s) = (s \<noteq> [])" "truthy (JArr xs) = True" "truthy (JObj kvs) = True" "truthy (JFun f) = True"
  by (simp_all add: truthy_def)

lemma or_js_simps:
  "or_js JUndef b = b" "or_js JNull b = b" "or_js (JStr (c # s)) b = JStr (c # s)" "or_js (JStr []) b = b"
  "or_js (JArr xs) b = JArr xs" "or_js (JObj kvs) b = JObj kvs"
  "or_js (JNum n) b = (if n = 0 then b else JNum n)" "or_js (JBool t) b = (if t then JBool t else b)"
  "or_js (JFun f) b = JFun f"
  by (simp_all add: or_js_def truthy_def)

lemma or_js_defined: "d \<noteq> JUndef \<Longrightarrow> or_js x d \<noteq> JUndef"
  by (cases x) (simp_all add: or_js_def truthy_def)

lemma first_truthy_or_js:
  "first_truthy [] d = d"
  "first_truthy [a] d = or_js a d"
  "first_truthy [a, b] d = or_js (or_js a b) d"
  "first_truthy [a, b, c] d = or_js (or_js (or_js a b) c) d"
  by (simp_all add: or_js_def)

lemma issue_returns:
  assumes "normalizeCustomIssue now raw = Inr out"
  shows "\<not> nullish raw" and "out = projr (normalizeCustomIssue now raw)"
  using assms by (cases "nullish raw"; simp add: normalizeCustomIssue_def)+

lemma jira_comment_returns:
  assumes "jira_normalizeCustomComment now raw = Inr out"
  shows "\<not> nullish raw" and "out = projr (jira_normalizeCustomComment now raw)"
  using assms by (cases "nullish raw"; simp add: jira_normalizeCustomComment_def)+

lemma confluence_comment_returns:
  assumes "confluence_normalizeCustomComment t raw = Inr out"
  shows "\<not> nullish raw" and "out = projr (confluence_normalizeCustomComment t raw)"
  using assms by (cases "nullish raw"; simp add: confluence_normalizeCustomComment_def)+

lemma project_returns:
  assumes "normalizeCustomProject raw = Inr out"
  shows "\<not> nullish raw" and "out = projr (normalizeCustomProject raw)"
  using assms by (cases "nullish raw"; simp add: normalizeCustomProject_def)+

lemma page_returns:
  assumes "normalizeCustomPage now raw = Inr out"
  shows "\<not> nullish raw" and "out = projr (normalizeCustomPage now raw)"
    and "\<exists>space. page_space raw = Inr space"
    and "\<exists>ident. to_str (or_js (js_prop raw ''id'') (js_prop raw ''page_id'')) = Inr ident"
proof -
  show nn: "\<not> nullish raw"
    using assms by (cases "nullish raw"; simp add: normalizeCustomPage_def)
  show "out = projr (normalizeCustomPage now raw)"
    using assms by simp
  show sp: "\<exists>space. page_space raw = Inr space"
    using assms nn by (cases "page_space raw"; simp add: normalizeCustomPage_def)
  show "\<exists>ident. to_str (or_js (js_prop raw ''id'') (js_prop raw ''page_id'')) = Inr ident"
    using assms nn sp
    by (cases "to_str (or_js (js_prop raw ''id'') (js_prop raw ''page_id''))";
        auto simp add: normalizeCustomPage_def)
qed

lemma space_returns:
  assumes "normalizeCustomSpace raw = Inr out"
  shows "\<not> nullish raw" and "out = projr (normalizeCustomSpace raw)"
    and "\<exists>ident. to_str (or_js (js_prop raw ''key'') (js_prop raw ''id'')) = Inr ident"
proof -
  show nn: "\<not> nullish raw"
    using assms by (cases "nullish raw"; simp add: normalizeCustomSpace_def)
  show "out = projr (normalizeCustomSpace raw)"
    using assms by simp
  show "\<exists>ident. to_str (or_js (js_prop raw ''key'') (js_prop raw ''id'')) = Inr ident"
    using assms nn
    by (cases "to_str (or_js (js_prop raw ''key'') (js_prop raw ''id''))";
        auto simp add: normalizeCustomSpace_def)
qed

lemma issue_required_defined:
  assumes "normalizeCustomIssue now raw = Inr out"
  shows "\<forall>p\<in>set issue_required. field_at out p \<noteq> JUndef"
  unfolding issue_returns(2) [OF assms] normalizeCustomIssue_def issue_required_def
  using issue_returns(1) [OF assms]
  by (simp add: js_prop_Cons js_prop_Nil or_js_defined)

lemma issue_all_defaults:
  assumes "\<not> nullish raw" and "\<forall>k\<in>set issue_keys. js_prop raw k = JUndef"
  shows "normalizeCustomIssue now raw = Inr (issue_defaults now)"
  using assms unfolding normalizeCustomIssue_def issue_keys_def issue_defaults_def
  by (simp add: or_js_simps truthy_simps opt_prop_def nullish_def)

lemma page_required_defined:
  assumes "normalizeCustomPage now raw = Inr out"
  shows "\<forall>p\<in>set page_required. field_at out p \<noteq> JUndef"
proof -
  obtain space ident where "page_space raw = Inr space"
      "to_str (or_js (js_prop raw ''id'') (js_prop raw ''page_id'')) = Inr ident"
    using page_returns(3,4) [OF assms] by blast
  then show ?thesis
    unfolding page_returns(2) [OF assms] normalizeCustomPage_def page_required_def
    using page_returns(1) [OF assms]
    by (simp add: js_prop_Cons js_prop_Nil or_js_defined)
qed

lemma page_all_defaults:
  assumes "\<not> nullish raw" and "\<forall>k\<in>set page_keys. js_prop raw k = JUndef"
  shows "normalizeCustomPage now raw = Inr (page_defaults now)"
  using assms unfolding normalizeCustomPage_def page_space_def page_keys_def page_defaults_def
  by (simp add: or_js_simps truthy_simps)

lemma jira_comment_required_defined:
  assumes "jira_normalizeCustomComment now raw = Inr out"
  shows "\<forall>p\<in>set jira_comment_required. field_at out p \<noteq> JUndef"
  unfolding jira_comment_returns(2) [OF assms] jira_normalizeCustomComment_def jira_comment_required_def
  using jira_comment_returns(1) [OF assms]
  by (simp add: js_prop_Cons js_prop_Nil or_js_defined)

lemma jira_comment_all_defaults:
  assumes "\<not> nullish raw" and "\<forall>k\<in>set comment_keys. js_prop raw k = JUndef"
  shows "jira_normalizeCustomComment now raw = Inr (jira_comment_defaults now)"
  using assms unfolding jira_normalizeCustomComment_def comment_keys_def jira_comment_defaults_def
  by (simp add: or_js_simps)

lemma confluence_comment_required_defined:
  assumes "confluence_normalizeCustomComment t raw = Inr out"
  shows "\<forall>p\<in>set confluence_comment_required. field_at out p \<noteq> JUndef"
  unfolding confluence_comment_returns(2) [OF assms] confluence_normalizeCustomComment_def
    confluence_comment_required_def
  using confluence_comment_returns(1) [OF assms]
  by (simp add: js_prop_Cons js_prop_Nil or_js_defined)

lemma confluence_comment_all_defaults:
  assumes "\<not> nullish raw" and "\<forall>k\<in>set comment_keys. js_prop raw k = JUndef"
  shows "confluence_normalizeCustomComment t raw = Inr (confluence_comment_defaults t)"
  using assms unfolding confluence_normalizeCustomComment_def comment_keys_def confluence_comment_defaults_def
  by (simp add: or_js_simps)

lemma project_required_defined:
  assumes "normalizeCustomProject raw = Inr out"
  shows "\<forall>p\<in>set project_required. field_at out p \<noteq> JUndef"
  unfolding project_returns(2) [OF assms] normalizeCustomProject_def project_required_def
  using project_returns(1) [OF assms]
  by (simp add: js_prop_Cons js_prop_Nil or_js_defined)

lemma project_all_defaults:
  assumes "\<not> nullish raw" and "\<forall>k\<in>set project_keys. js_prop raw k = JUndef"
  shows "normalizeCustomProject raw = Inr project_defaults"
  using assms unfolding normalizeCustomProject_def project_keys_def project_defaults_def
  by (simp add: or_js_simps truthy_simps)

lemma space_required_defined:
  assumes "normalizeCustomSpace raw = Inr out"
  shows "\<forall>p\<in>set space_required. field_at out p \<noteq> JUndef"
proof -
  obtain ident where "to_str (or_js (js_prop raw ''key'') (js_prop raw ''id'')) = Inr ident"
    using space_returns(3) [OF assms] by blast
  then show ?thesis
    unfolding space_returns(2) [OF assms] normalizeCustomSpace_def space_required_def
    using space_returns(1) [OF assms]
    by (simp add: js_prop_Cons js_prop_Nil or_js_defined)
qed

lemma space_all_defaults:
  assumes "\<not> nullish raw" and "\<forall>k\<in>set space_keys. js_prop raw k = JUndef"
  shows "normalizeCustomSpace raw = Inr space_defaults"
  using assms unfolding normalizeCustomSpace_def space_keys_def space_defaults_def
  by (simp add: or_js_simps)

lemma issue_alias_table:
  assumes "normalizeCustomIssue now raw = Inr out"
  shows "\<forall>(path, aliases, d)\<in>set (issue_aliases now).
           field_at out path = first_truthy (map (js_prop raw) aliases) d"
  unfolding issue_returns(2) [OF assms] normalizeCustomIssue_def issue_aliases_def
  using issue_returns(1) [OF assms]
  by (simp add: js_prop_Cons js_prop_Nil first_truthy_or_js del: first_truthy.simps(2))

lemma issue_nested:
  assumes "normalizeCustomIssue now raw = Inr out"
  shows "field_at out [''fields'', ''description''] =
           first_truthy (map (js_prop raw) [''description'', ''body'']) (js_prop raw ''content'') \<and>
         field_at out [''fields'', ''assignee''] =
           (if truthy (js_prop raw ''assignee'') then JObj [
              (''displayName'', first_truthy
                  [js_prop (js_prop raw ''assignee'') ''name'', js_prop raw ''assignee''] (JStr [])),
              (''emailAddress'', first_truthy [js_prop (js_prop raw ''assignee'') ''email''] (JStr []))]
            else JUndef) \<and>
         field_at out [''fields'', ''reporter''] =
           (if truthy (first_truthy (map (js_prop raw) [''reporter'']) (js_prop raw ''created_by'')) then JObj [
              (''displayName'', first_truthy
                  [opt_prop (js_prop raw ''reporter'') ''name'', js_prop raw ''created_by''] (JStr [])),
              (''emailAddress'', first_truthy [opt_prop (js_prop raw ''reporter'') ''email''] (JStr []))]
            else JUndef) \<and>
         field_at out [''fields'', ''priority''] =
           (if truthy (js_prop raw ''priority'') then JObj [
              (''name'', js_prop raw ''priority''),
              (''id'', first_truthy (map (js_prop raw) [''priority_id'']) (JStr ''3''))]
            else JUndef)"
  unfolding issue_returns(2) [OF assms] normalizeCustomIssue_def
  using issue_returns(1) [OF assms]
  by (simp add: js_prop_Cons js_prop_Nil first_truthy_or_js del: first_truthy.simps(2))

lemma page_alias_table:
  assumes "normalizeCustomPage now raw = Inr out"
  shows "\<forall>(path, aliases, d)\<in>set (page_aliases now).
           field_at out path = first_truthy (map (js_prop raw) aliases) d"
proof -
  obtain space ident where "page_space raw = Inr space"
      "to_str (or_js (js_prop raw ''id'') (js_prop raw ''page_id'')) = Inr ident"
    using page_returns(3,4) [OF assms] by blast
  then show ?thesis
    unfolding page_returns(2) [OF assms] normalizeCustomPage_def page_aliases_def
    using page_returns(1) [OF assms]
    by (simp add: js_prop_Cons js_prop_Nil first_truthy_or_js del: first_truthy.simps(2))
qed

lemma page_space_value:
  assumes "page_space raw = Inr space"
  shows "space =
           (if truthy (first_truthy (map (js_prop raw) [''space'']) (js_prop raw ''space_key'')) then
              (if typeof_object (js_prop raw ''space'') then JObj [
                 (''key'', js_prop (js_prop raw ''space'') ''key''),
                 (''name'', js_prop (js_prop raw ''space'') ''name'')]
               else JObj [
                 (''key'', first_truthy (map (js_prop raw) [''space'']) (js_prop raw ''space_key'')),
                 (''name'', first_truthy (map (js_prop raw) [''space'']) (js_prop raw ''space_key''))])
            else JUndef)"
  using assms unfolding page_space_def get_def
  by (auto simp add: first_truthy_or_js simp del: first_truthy.simps(2) split: if_splits)

lemma page_space_field:
  assumes "normalizeCustomPage now raw = Inr out"
  shows "Inr (field_at out [''space'']) = page_space raw"
proof -
  obtain space ident where "page_space raw = Inr space"
      "to_str (or_js (js_prop raw ''id'') (js_prop raw ''page_id'')) = Inr ident"
    using page_returns(3,4) [OF assms] by blast
  then show ?thesis
    unfolding page_returns(2) [OF assms] normalizeCustomPage_def
    using page_returns(1) [OF assms]
    by (simp add: js_prop_Cons js_prop_Nil)
qed

lemma or_js_absorb: "or_js (or_js (or_js x d) JUndef) d = or_js x d"
  by (simp add: or_js_def truthy_def)

lemma or_js_again: "or_js (or_js x d) d = or_js x d"
  by (simp add: or_js_def)

lemma field_of_Inr: "r = Inr out \<Longrightarrow> field_of r p = Some (field_at out p)"
  by (simp add: field_of_def)

lemma issue_out_props:
  assumes "normalizeCustomIssue now raw = Inr out"
  shows "\<not> nullish out"
    and "js_prop out ''id'' = or_js (or_js (js_prop raw ''id'') (js_prop raw ''issue_id'')) (JStr [])"
    and "js_prop out ''issue_id'' = JUndef"
  unfolding issue_returns(2) [OF assms] normalizeCustomIssue_def
  using issue_returns(1) [OF assms]
  by (simp_all add: js_prop_Cons js_prop_Nil nullish_def)

lemma issue_twice:
  assumes "normalizeCustomIssue now raw = Inr out"
  shows "\<exists>out2. normalizeCustomIssue now' out = Inr out2 \<and> field_at out2 [''id''] = field_at out [''id'']"
proof -
  note p = issue_out_props [OF assms]
  have "normalizeCustomIssue now' out = Inr (projr (normalizeCustomIssue now' out))"
    using p(1) by (simp add: normalizeCustomIssue_def)
  moreover have "field_at (projr (normalizeCustomIssue now' out)) [''id''] = field_at out [''id'']"
    using p(1) by (simp add: normalizeCustomIssue_def js_prop_Cons js_prop_Nil p(2,3) or_js_absorb)
  ultimately show ?thesis by blast
qed

lemma page_space_shape:
  assumes "page_space raw = Inr space"
  shows "space = JUndef \<or> (\<exists>k n. space = JObj [(''key'', k), (''name'', n)])"
  using assms unfolding page_space_def
  by (auto split: if_splits sum.splits)

lemma page_out_props:
  assumes "normalizeCustomPage now raw = Inr out"
  shows "\<not> nullish out"
    and "js_prop out ''id'' = or_js (or_js (js_prop raw ''id'') (js_prop raw ''page_id'')) (JStr [])"
    and "js_prop out ''page_id'' = JUndef"
    and "js_prop out ''title'' = or_js (or_js (js_prop raw ''title'') (js_prop raw ''name'')) (JStr [])"
    and "js_prop out ''name'' = JUndef"
    and "js_prop out ''type'' = JStr ''page''"
    and "js_prop out ''status'' = or_js (js_prop raw ''status'') (JStr ''current'')"
    and "Inr (js_prop out ''space'') = page_space raw"
    and "js_prop out ''space_key'' = JUndef"
proof -
  obtain space ident where "page_space raw = Inr space"
      "to_str (or_js (js_prop raw ''id'') (js_prop raw ''page_id'')) = Inr ident"
    using page_returns(3,4) [OF assms] by blast
  then show "\<not> nullish out"
    and "js_prop out ''id'' = or_js (or_js (js_prop raw ''id'') (js_prop raw ''page_id'')) (JStr [])"
    and "js_prop out ''page_id'' = JUndef"
    and "js_prop out ''title'' = or_js (or_js (js_prop raw ''title'') (js_prop raw ''name'')) (JStr [])"
    and "js_prop out ''name'' = JUndef"
    and "js_prop out ''type'' = JStr ''page''"
    and "js_prop out ''status'' = or_js (js_prop raw ''status'') (JStr ''current'')"
    and "Inr (js_prop out ''space'') = page_space raw"
    and "js_prop out ''space_key'' = JUndef"
    unfolding page_returns(2) [OF assms] normalizeCustomPage_def
    using page_returns(1) [OF assms]
    by (simp_all add: js_prop_Cons js_prop_Nil nullish_def)
qed

lemma page_space_again:
  assumes "page_space raw = Inr space" and "js_prop out ''space'' = space"
    and "js_prop out ''space_key'' = JUndef"
  shows "page_space out = Inr space"
  using page_space_shape [OF assms(1)] assms(2,3)
  by (auto simp add: page_space_def or_js_simps truthy_simps typeof_object_def get_def nullish_def
      js_prop_Cons js_prop_Nil)

lemma to_str_again:
  assumes "to_str x = Inr ident"
  shows "\<exists>ident2. to_str (or_js (or_js x (JStr [])) JUndef) = Inr ident2"
  using assms by (cases "truthy x") (simp_all add: or_js_def truthy_simps)

lemma page_twice:
  assumes "normalizeCustomPage now raw = Inr out"
  shows "\<exists>out2. normalizeCustomPage now' out = Inr out2 \<and>
           field_at out2 [''id''] = field_at out [''id''] \<and>
           field_at out2 [''title''] = field_at out [''title''] \<and>
           field_at out2 [''type''] = field_at out [''type''] \<and>
           field_at out2 [''status''] = field_at out [''status''] \<and>
           field_at out2 [''space''] = field_at out [''space'']"
proof -
  note p = page_out_props [OF assms]
  obtain space ident where sp: "page_space raw = Inr space"
      and id: "to_str (or_js (js_prop raw ''id'') (js_prop raw ''page_id'')) = Inr ident"
    using page_returns(3,4) [OF assms] by blast
  have os: "js_prop out ''space'' = space"
    using p(8) sp by simp
  have sp2: "page_space out = Inr space"
    using page_space_again [OF sp os p(9)] .
  obtain ident2 where id2: "to_str (or_js (js_prop out ''id'') (js_prop out ''page_id'')) = Inr ident2"
    using to_str_again [OF id] unfolding p(2,3) by blast
  have r: "normalizeCustomPage now' out = Inr (projr (normalizeCustomPage now' out))"
    using p(1) sp2 id2 by (simp add: normalizeCustomPage_def)
  have "field_at (projr (normalizeCustomPage now' out)) [''id''] = field_at out [''id'']"
    and "field_at (projr (normalizeCustomPage now' out)) [''title''] = field_at out [''title'']"
    and "field_at (projr (normalizeCustomPage now' out)) [''type''] = field_at out [''type'']"
    and "field_at (projr (normalizeCustomPage now' out)) [''status''] = field_at out [''status'']"
    and "field_at (projr (normalizeCustomPage now' out)) [''space''] = field_at out [''space'']"
    using p(1) sp2 id2 os
    by (simp_all add: normalizeCustomPage_def js_prop_Cons js_prop_Nil p(2-7,9) or_js_absorb or_js_again)
  with r show ?thesis by blast
qed

lemma string_assignee:
  assumes "js_prop raw ''assignee'' = JStr s" and "s \<noteq> []"
  shows "field_of (normalizeCustomIssue now raw) [''fields'', ''assignee''] =
           Some (JObj [(''displayName'', JStr s), (''emailAddress'', JStr [])])"
proof -
  have nn: "\<not> nullish raw"
    using assms(1) by (auto simp: nullish_def js_prop_def)
  obtain c cs where s: "s = c # cs"
    using assms(2) by (cases s) auto
  show ?thesis
    unfolding field_of_def normalizeCustomIssue_def using nn assms(1)
    by (simp add: js_prop_Cons js_prop_Nil s truthy_simps or_js_simps)
       (simp add: js_prop_def or_js_simps)
qed

lemma string_space:
  assumes "js_prop raw ''space'' = JStr s" and "s \<noteq> []"
  shows "page_space raw = Inr (JObj [(''key'', JStr s), (''name'', JStr s)])"
proof -
  obtain c cs where s: "s = c # cs"
    using assms(2) by (cases s) auto
  show ?thesis
    unfolding page_space_def using assms(1)
    by (simp add: s truthy_simps or_js_simps typeof_object_def)
qed

lemma confluence_empty_result:
  assumes "\<not> nullish r"
    and "first_truthy (map (js_prop r) [''pages'', ''data'', ''results'']) (JArr []) = JArr []"
  shows "confluence_normalizeCustomSearchResult clock r limit start =
           Inr (JObj [(''results'', JArr []), (''start'', JNum start), (''limit'', JNum limit),
                      (''size'', JNum 0)])"
  using assms unfolding confluence_normalizeCustomSearchResult_def
  by (simp add: first_truthy_or_js del: first_truthy.simps(2))

lemma jira_empty_result:
  assumes "\<not> nullish r"
    and "first_truthy (map (js_prop r) [''issues'', ''data'', ''results'']) (JArr []) = JArr []"
  shows "jira_normalizeCustomSearchResult clock r maxResults startAt =
           Inr (JObj [(''issues'', JArr []),
                      (''total'', first_truthy [js_prop r ''total''] (JNum 0)),
                      (''maxResults'', JNum maxResults), (''startAt'', JNum startAt)])"
  using assms unfolding jira_normalizeCustomSearchResult_def
  by (simp add: first_truthy_or_js del: first_truthy.simps(2))

lemma gt_zero_empty: "gt_zero sp (length_of (JArr [])) = Inr False"
  by (simp add: gt_zero_def length_of_def)

lemma page_by_title_custom_empty:
  assumes "useCustomApi cfg"
    and "http (Get (''/'' @ customApiVersion cfg @ ''/pages/search'')
            [(''q'', JStr title), (''space'', JStr spaceKey), (''limit'', JNum 1)]) = Inr data"
    and "\<not> nullish data"
    and "first_truthy (map (js_prop data) [''pages'', ''data'', ''results'']) (JArr []) = JArr []"
  shows "getPageByTitle sp cfg http now spaceKey title expand = Inr JNull"
  using assms unfolding getPageByTitle_def rethrow_def
  by (simp add: first_truthy_or_js gt_zero_empty del: first_truthy.simps(2))

lemma page_by_title_standard_empty:
  assumes "\<not> useCustomApi cfg"
    and "http (Get ''/content'' [(''spaceKey'', JStr spaceKey), (''title'', JStr title),
            (''expand'', JStr (join_str '','' expand))]) = Inr data"
    and "\<not> nullish data"
    and "first_truthy (map (js_prop data) [''results'']) (JArr []) = JArr []"
  shows "getPageByTitle sp cfg http now spaceKey title expand = Inr JNull"
  using assms unfolding getPageByTitle_def rethrow_def
  by (simp add: first_truthy_or_js gt_zero_empty del: first_truthy.simps(2))

lemma space_custom_empty:
  assumes "useCustomApi cfg"
    and "http (Get (''/'' @ customApiVersion cfg @ ''/spaces'')
            [(''limit'', JNum (maxResultsDefault cfg))]) = Inr data"
    and "\<not> nullish data"
    and "first_truthy (map (js_prop data) [''spaces'', ''data'']) (JArr []) = JArr []"
  shows "getSpace cfg http spaceKey =
           Inl (Failed (''Failed to get space '' @ spaceKey) (Err (''Space '' @ spaceKey @ '' not found'')))"
  using assms unfolding getSpace_def getSpaces_def rethrow_def
  by (simp add: first_truthy_or_js truthy_simps del: first_truthy.simps(2))

lemma canonicalize_eq: "(canonicalize c = CHR ''='') = (c = CHR ''='')"
proof (cases "97 \<le> (of_char c :: nat) \<and> (of_char c :: nat) \<le> 122")
  case True
  have "(of_char (char_of ((of_char c :: nat) - 32)) :: nat) \<noteq> of_char (CHR ''='')"
    using True by (auto simp add: mod_if)
  then have "char_of ((of_char c :: nat) - 32) \<noteq> CHR ''=''"
    by metis
  moreover have "c \<noteq> CHR ''=''"
    using True by auto
  ultimately show ?thesis
    using True by (simp add: canonicalize_def Let_def)
next
  case False
  then show ?thesis
    by (auto simp add: canonicalize_def Let_def)
qed

lemma eq_not_space: "\<not> is_space (CHR ''='')"
  by (simp add: is_space_def)

lemma lit_ci_None:
  "(lit_ci l p s = None) = (\<not> (length l \<le> length s \<and> map canonicalize (take (length l) s) = map canonicalize l))"
  by (induction l p s rule: lit_ci.induct) auto

lemma lit_ci_Some:
  "lit_ci l p s = Some (q, t) \<Longrightarrow> t = drop (length l) s"
  by (induction l p s rule: lit_ci.induct) (auto split: if_splits)

lemma runs_shape:
  "\<exists>p' rest. runs k p s = (p', dropWhile (in_cls k) s) # rest \<and>
      length rest = length (takeWhile (in_cls k) s) \<and>
      (\<forall>(q, t)\<in>set rest. \<exists>c cs. t = c # cs \<and> in_cls k c)"
proof (induction s arbitrary: p)
  case Nil
  then show ?case by simp
next
  case (Cons c cs)
  show ?case
  proof (cases "in_cls k c")
    case True
    obtain p' rest where r: "runs k (Some c) cs = (p', dropWhile (in_cls k) cs) # rest"
        "length rest = length (takeWhile (in_cls k) cs)"
        "\<forall>(q, t)\<in>set rest. \<exists>c cs. t = c # cs \<and> in_cls k c"
      using Cons.IH [of "Some c"] by blast
    show ?thesis
      using True r by (intro exI [of _ p'] exI [of _ "rest @ [(p, c # cs)]"]) auto
  next
    case False
    then show ?thesis by simp
  qed
qed

lemma first_some_head:
  assumes "\<forall>y\<in>set rest. f y = None"
  shows "first_some (map f (x # rest)) = f x"
proof -
  have "first_some (map f rest) = None"
    using assms by (induction rest) auto
  then show ?thesis by (cases "f x") auto
qed

lemma in_cls_NonSpace: "in_cls NonSpace = (\<lambda>c. \<not> is_space c)"
  by (rule ext) simp

lemma in_cls_Space: "in_cls Space = is_space"
  by (rule ext) simp

lemma take_diff_dropWhile: "take (length s - length (dropWhile P s)) s = takeWhile P s"
proof -
  have "length s - length (dropWhile P s) = length (takeWhile P s)"
    by (metis add_diff_cancel_right' length_append takeWhile_dropWhile_id)
  then show ?thesis
    by (metis takeWhile_eq_take)
qed

lemma rmatch_value:
  "rmatch [Open, Plus NonSpace, Close] p s g c =
     (let v = takeWhile (\<lambda>c. \<not> is_space c) s
      in if v = [] then None else Some (dropWhile (\<lambda>c. \<not> is_space c) s, v))"
proof -
  obtain p' rest where r: "runs NonSpace p s = (p', dropWhile (in_cls NonSpace) s) # rest"
      "length rest = length (takeWhile (in_cls NonSpace) s)"
    using runs_shape [of NonSpace p s] by blast
  show ?thesis
  proof (cases "takeWhile (\<lambda>c. \<not> is_space c) s = []")
    case True
    then have "rest = []"
      using r(2) by (simp add: in_cls_NonSpace)
    then show ?thesis
      using True r(1) by simp
  next
    case False
    then have "rest \<noteq> []"
      using r(2) by (auto simp add: in_cls_NonSpace)
    then have "butlast (runs NonSpace p s) = (p', dropWhile (in_cls NonSpace) s) # butlast rest"
      using r(1) by simp
    then show ?thesis
      using False by (simp add: in_cls_NonSpace take_diff_dropWhile)
  qed
qed

lemma rmatch_spaces_value:
  "rmatch [Star Space, Open, Plus NonSpace, Close] p s g c =
     (let t = dropWhile is_space s; v = takeWhile (\<lambda>c. \<not> is_space c) t
      in if v = [] then None else Some (dropWhile (\<lambda>c. \<not> is_space c) t, v))"
proof -
  obtain p' rest where r: "runs Space p s = (p', dropWhile (in_cls Space) s) # rest"
      "\<forall>(q, t)\<in>set rest. \<exists>c cs. t = c # cs \<and> in_cls Space c"
    using runs_shape [of Space p s] by blast
  have "\<forall>y\<in>set rest. (\<lambda>(p', s'). rmatch [Open, Plus NonSpace, Close] p' s' g c) y = None"
    using r(2) by (auto simp add: rmatch_value simp del: rmatch.simps)
  then have "first_some (map (\<lambda>(p', s'). rmatch [Open, Plus NonSpace, Close] p' s' g c)
                 ((p', dropWhile (in_cls Space) s) # rest))
             = rmatch [Open, Plus NonSpace, Close] p' (dropWhile (in_cls Space) s) g c"
    using first_some_head [of rest "\<lambda>(p', s'). rmatch [Open, Plus NonSpace, Close] p' s' g c"
        "(p', dropWhile (in_cls Space) s)"] by (simp del: rmatch.simps)
  then show ?thesis
    unfolding rmatch.simps(4) r(1)
    by (simp add: rmatch_value in_cls_Space Let_def del: rmatch.simps)
qed

lemma canonicalize_eq_sign: "canonicalize CHR ''='' = CHR ''=''"
  by (simp add: canonicalize_def)

lemma lit_eq:
  "lit_ci ''='' p s = (case s of [] \<Rightarrow> None | c # cs \<Rightarrow> if c = CHR ''='' then Some (Some c, cs) else None)"
  by (cases s) (auto simp: canonicalize_eq canonicalize_eq_sign eq_commute [of "CHR ''=''"])

lemma rmatch_after_keyword:
  "rmatch [Star Space, Lit ''='', Star Space, Open, Plus NonSpace, Close] p s g c =
     (case dropWhile is_space s of
        [] \<Rightarrow> None
      | x # r \<Rightarrow>
          if x = CHR ''='' then
            (let t = dropWhile is_space r; v = takeWhile (\<lambda>c. \<not> is_space c) t
             in if v = [] then None else Some (dropWhile (\<lambda>c. \<not> is_space c) t, v))
          else None)"
proof -
  let ?f = "\<lambda>(p', s'). rmatch [Lit ''='', Star Space, Open, Plus NonSpace, Close] p' s' g c"
  have f: "\<And>q t. ?f (q, t) =
      (case t of [] \<Rightarrow> None
       | x # r \<Rightarrow> if x = CHR ''='' then rmatch [Star Space, Open, Plus NonSpace, Close] (Some x) r g c
                   else None)"
    unfolding prod.case rmatch.simps(2) lit_eq by (simp split: list.splits del: rmatch.simps)
  obtain p' rest where r: "runs Space p s = (p', dropWhile (in_cls Space) s) # rest"
      "\<forall>(q, t)\<in>set rest. \<exists>c cs. t = c # cs \<and> in_cls Space c"
    using runs_shape [of Space p s] by blast
  have "\<forall>y\<in>set rest. ?f y = None"
  proof
    fix y assume y: "y \<in> set rest"
    obtain q t where qt: "y = (q, t)" by (cases y)
    obtain x xs where t: "t = x # xs" "is_space x"
      using r(2) y qt by auto
    then have "x \<noteq> CHR ''=''"
      using eq_not_space by auto
    then show "?f y = None"
      unfolding qt f using t by simp
  qed
  then have "first_some (map ?f ((p', dropWhile (in_cls Space) s) # rest))
             = ?f (p', dropWhile (in_cls Space) s)"
    by (rule first_some_head)
  moreover have "rmatch [Star Space, Lit ''='', Star Space, Open, Plus NonSpace, Close] p s g c
             = first_some (map ?f (runs Space p s))"
    by (simp only: rmatch.simps(4))
  ultimately have "rmatch [Star Space, Lit ''='', Star Space, Open, Plus NonSpace, Close] p s g c
             = ?f (p', dropWhile is_space s)"
    using r(1) by (simp only: in_cls_Space)
  then show ?thesis
    unfolding f rmatch_spaces_value .
qed

lemma rmatch_clause:
  "map_option snd (rmatch (clause_rx kw) p s g c) = clause_at kw s"
proof (cases "lit_ci kw p s")
  case None
  then show ?thesis
    using lit_ci_None [of kw p s]
    by (auto simp add: clause_rx_def clause_at_def simp del: rmatch.simps(4,5,8,9))
next
  case (Some a)
  obtain q t where a: "a = (q, t)" by (cases a)
  have t: "t = drop (length kw) s"
    using Some a lit_ci_Some by blast
  have c: "length kw \<le> length s \<and> map canonicalize (take (length kw) s) = map canonicalize kw"
    using Some lit_ci_None [of kw p s] by auto
  have g: "map_option snd
         (case d of [] \<Rightarrow> None
          | x # r \<Rightarrow>
              if x = CHR ''=''
              then let t = dropWhile is_space r;
                       v = takeWhile (\<lambda>c. \<not> is_space c) t
                   in if v = [] then None
                      else Some (dropWhile (\<lambda>c. \<not> is_space c) t, v)
              else None) =
        (case d of [] \<Rightarrow> None
         | c # r \<Rightarrow>
             if c = CHR ''=''
             then let v = takeWhile (\<lambda>c. \<not> is_space c) (dropWhile is_space r)
                  in if v = [] then None else Some v
             else None)" for d
    by (cases d) (simp_all add: Let_def)
  show ?thesis
    unfolding clause_rx_def rmatch.simps(2) Some a prod.case option.case rmatch_after_keyword clause_at_def t g
    using c by simp
qed

lemma str_match_clause: "str_match (clause_rx kw) p s = first_clause kw s"
proof (induction s arbitrary: p)
  case Nil
  show ?case
    by (cases "rmatch (clause_rx kw) p [] [] []")
       (auto simp add: rmatch_clause [of kw p "[]" "[]" "[]", symmetric])
next
  case (Cons x xs)
  show ?case
    using Cons.IH [of "Some x"]
    by (cases "rmatch (clause_rx kw) p (x # xs) [] []")
       (auto simp add: rmatch_clause [of kw p "x # xs" "[]" "[]", symmetric])
qed

lemma strip_double_strip: "strip_double_quotes (strip_quotes s) = strip_quotes s"
  by (induction s) (auto simp: strip_double_quotes_def strip_quotes_def)

lemma jql_shape:
  "parseJqlToFilters q =
     (case first_clause ''project'' q of None \<Rightarrow> [] | Some v \<Rightarrow> [(''project'', strip_quotes v)]) @
     (case first_clause ''status'' q of None \<Rightarrow> [] | Some v \<Rightarrow> [(''status'', strip_quotes v)]) @
     (case first_clause ''assignee'' q of None \<Rightarrow> []
      | Some v \<Rightarrow> [(''assignee'', if strip_quotes v = ''currentuser()'' then ''me'' else strip_quotes v)])"
  by (simp add: parseJqlToFilters_def Let_def str_match_clause strip_double_strip split: option.splits)

lemma first_truthy_absent: "\<forall>x\<in>set xs. x = JUndef \<Longrightarrow> first_truthy xs d = d"
  by (induction xs) (auto simp: truthy_simps)

lemma first_truthy_defined: "d \<noteq> JUndef \<Longrightarrow> first_truthy xs d \<noteq> JUndef"
  by (induction xs) (auto simp: truthy_simps)

lemma table_defaults:
  assumes "\<forall>(path, aliases, d)\<in>set A. field_at out path = first_truthy (map (js_prop raw) aliases) d"
  shows "\<forall>(path, aliases, d)\<in>set A.
           (\<forall>k\<in>set aliases. js_prop raw k = JUndef) \<longrightarrow> field_at out path = d"
proof (clarify)
  fix path aliases d
  assume "(path, aliases, d) \<in> set A" and a: "\<forall>k\<in>set aliases. js_prop raw k = JUndef"
  then have "field_at out path = first_truthy (map (js_prop raw) aliases) d"
    using assms by blast
  moreover have "first_truthy (map (js_prop raw) aliases) d = d"
    using a by (intro first_truthy_absent) auto
  ultimately show "field_at out path = d" by simp
qed

lemma field_at_snoc: "field_at v (ks @ [k]) = js_prop (field_at v ks) k"
  by (induction ks arbitrary: v) auto

lemma jira_comment_alias_table:
  assumes "jira_normalizeCustomComment now raw = Inr out"
  shows "\<forall>(path, aliases, d)\<in>set (jira_comment_aliases now).
           field_at out path = first_truthy (map (js_prop raw) aliases) d"
  unfolding jira_comment_returns(2) [OF assms] jira_normalizeCustomComment_def jira_comment_aliases_def
  using jira_comment_returns(1) [OF assms]
  by (simp add: js_prop_Cons js_prop_Nil first_truthy_or_js del: first_truthy.simps(2))

lemma confluence_comment_alias_table:
  assumes "confluence_normalizeCustomComment t raw = Inr out"
  shows "\<forall>(path, aliases, d)\<in>set (confluence_comment_aliases t).
           field_at out path = first_truthy (map (js_prop raw) aliases) d"
  unfolding confluence_comment_returns(2) [OF assms] confluence_normalizeCustomComment_def
    confluence_comment_aliases_def
  using confluence_comment_returns(1) [OF assms]
  by (simp add: js_prop_Cons js_prop_Nil first_truthy_or_js del: first_truthy.simps(2))

lemma project_alias_table:
  assumes "normalizeCustomProject raw = Inr out"
  shows "\<forall>(path, aliases, d)\<in>set project_aliases.
           field_at out path = first_truthy (map (js_prop raw) aliases) d"
  unfolding project_returns(2) [OF assms] normalizeCustomProject_def project_aliases_def
  using project_returns(1) [OF assms]
  by (simp add: js_prop_Cons js_prop_Nil first_truthy_or_js del: first_truthy.simps(2))

lemma project_lead:
  assumes "normalizeCustomProject raw = Inr out"
  shows "field_at out [''lead''] =
           (if truthy (first_truthy (map (js_prop raw) [''lead'']) (js_prop raw ''owner'')) then JObj [
              (''displayName'', first_truthy
                  [opt_prop (js_prop raw ''lead'') ''name'', js_prop raw ''owner''] (JStr []))]
            else JUndef)"
  unfolding project_returns(2) [OF assms] normalizeCustomProject_def
  using project_returns(1) [OF assms]
  by (simp add: js_prop_Cons js_prop_Nil first_truthy_or_js del: first_truthy.simps(2))

lemma space_alias_table:
  assumes "normalizeCustomSpace raw = Inr out"
  shows "\<forall>(path, aliases, d)\<in>set space_aliases.
           field_at out path = first_truthy (map (js_prop raw) aliases) d"
proof -
  obtain ident where "to_str (or_js (js_prop raw ''key'') (js_prop raw ''id'')) = Inr ident"
    using space_returns(3) [OF assms] by blast
  then show ?thesis
    unfolding space_returns(2) [OF assms] normalizeCustomSpace_def space_aliases_def
    using space_returns(1) [OF assms]
    by (simp add: js_prop_Cons js_prop_Nil first_truthy_or_js del: first_truthy.simps(2))
qed

lemma issue_optional:
  assumes "normalizeCustomIssue now raw = Inr out"
  shows "((\<forall>k\<in>set [''description'', ''body'', ''content'']. js_prop raw k = JUndef) \<longrightarrow>
            field_at out [''fields'', ''description''] = JUndef) \<and>
         (js_prop raw ''assignee'' = JUndef \<longrightarrow> field_at out [''fields'', ''assignee''] = JUndef) \<and>
         ((\<forall>k\<in>set [''reporter'', ''created_by'']. js_prop raw k = JUndef) \<longrightarrow>
            field_at out [''fields'', ''reporter''] = JUndef) \<and>
         (js_prop raw ''priority'' = JUndef \<longrightarrow> field_at out [''fields'', ''priority''] = JUndef) \<and>
         (field_at out [''fields'', ''assignee''] \<noteq> JUndef \<longrightarrow>
            field_at out [''fields'', ''assignee'', ''displayName''] \<noteq> JUndef \<and>
            field_at out [''fields'', ''assignee'', ''emailAddress''] \<noteq> JUndef) \<and>
         (field_at out [''fields'', ''reporter''] \<noteq> JUndef \<longrightarrow>
            field_at out [''fields'', ''reporter'', ''displayName''] \<noteq> JUndef \<and>
            field_at out [''fields'', ''reporter'', ''emailAddress''] \<noteq> JUndef) \<and>
         (field_at out [''fields'', ''priority''] \<noteq> JUndef \<longrightarrow>
            field_at out [''fields'', ''priority'', ''name''] \<noteq> JUndef \<and>
            field_at out [''fields'', ''priority'', ''id''] \<noteq> JUndef)"
proof -
  have s3: "field_at out [a, b, c] = js_prop (field_at out [a, b]) c" for a b c
    using field_at_snoc [of out "[a, b]" c] by simp
  have tu: "truthy x \<Longrightarrow> x \<noteq> JUndef" for x
    by (auto simp: truthy_simps)
  note n = issue_nested [OF assms]
  show ?thesis
    unfolding s3
    unfolding n [THEN conjunct1] n [THEN conjunct2, THEN conjunct1]
      n [THEN conjunct2, THEN conjunct2, THEN conjunct1] n [THEN conjunct2, THEN conjunct2, THEN conjunct2]
    by (auto simp add: truthy_simps js_prop_Cons js_prop_Nil first_truthy_defined tu)
qed

lemma page_space_absent:
  assumes "normalizeCustomPage now raw = Inr out"
    and "\<forall>k\<in>set [''space'', ''space_key'']. js_prop raw k = JUndef"
  shows "field_at out [''space''] = JUndef"
  using page_space_value [OF page_space_field [OF assms(1), symmetric]] assms(2)
  by (simp add: truthy_simps)

lemma project_optional:
  assumes "normalizeCustomProject raw = Inr out"
  shows "((\<forall>k\<in>set [''lead'', ''owner'']. js_prop raw k = JUndef) \<longrightarrow> field_at out [''lead''] = JUndef) \<and>
         (field_at out [''lead''] \<noteq> JUndef \<longrightarrow> field_at out [''lead'', ''displayName''] \<noteq> JUndef)"
proof -
  have s2: "field_at out [a, b] = js_prop (field_at out [a]) b" for a b
    using field_at_snoc [of out "[a]" b] by simp
  show ?thesis
    unfolding s2 project_lead [OF assms]
    by (auto simp add: truthy_simps js_prop_Cons js_prop_Nil first_truthy_defined)
qed

lemma issue_per_field:
  assumes a: "normalizeCustomIssue now raw = Inr out"
  shows "(\<forall>p\<in>set issue_required. field_at out p \<noteq> JUndef) \<and>
      (\<forall>(path, aliases, d)\<in>set (issue_aliases now).
          (\<forall>k\<in>set aliases. js_prop raw k = JUndef) \<longrightarrow> field_at out path = d) \<and>
      ((\<forall>k\<in>set [''description'', ''body'', ''content'']. js_prop raw k = JUndef) \<longrightarrow>
          field_at out [''fields'', ''description''] = JUndef) \<and>
      (js_prop raw ''assignee'' = JUndef \<longrightarrow> field_at out [''fields'', ''assignee''] = JUndef) \<and>
      ((\<forall>k\<in>set [''reporter'', ''created_by'']. js_prop raw k = JUndef) \<longrightarrow>
          field_at out [''fields'', ''reporter''] = JUndef) \<and>
      (js_prop raw ''priority'' = JUndef \<longrightarrow> field_at out [''fields'', ''priority''] = JUndef) \<and>
      (field_at out [''fields'', ''assignee''] \<noteq> JUndef \<longrightarrow>
          field_at out [''fields'', ''assignee'', ''displayName''] \<noteq> JUndef \<and>
          field_at out [''fields'', ''assignee'', ''emailAddress''] \<noteq> JUndef) \<and>
      (field_at out [''fields'', ''reporter''] \<noteq> JUndef \<longrightarrow>
          field_at out [''fields'', ''reporter'', ''displayName''] \<noteq> JUndef \<and>
          field_at out [''fields'', ''reporter'', ''emailAddress''] \<noteq> JUndef) \<and>
      (field_at out [''fields'', ''priority''] \<noteq> JUndef \<longrightarrow>
          field_at out [''fields'', ''priority'', ''name''] \<noteq> JUndef \<and>
          field_at out [''fields'', ''priority'', ''id''] \<noteq> JUndef)"
proof (intro conjI)
  show "\<forall>p\<in>set issue_required. field_at out p \<noteq> JUndef"
    using a by (rule issue_required_defined)
  show "\<forall>(path, aliases, d)\<in>set (issue_aliases now).
          (\<forall>k\<in>set aliases. js_prop raw k = JUndef) \<longrightarrow> field_at out path = d"
    using a by (intro table_defaults issue_alias_table)
  note o = issue_optional [OF a]
  show "(\<forall>k\<in>set [''description'', ''body'', ''content'']. js_prop raw k = JUndef) \<longrightarrow>
          field_at out [''fields'', ''description''] = JUndef"
    using o by blast
  show "js_prop raw ''assignee'' = JUndef \<longrightarrow> field_at out [''fields'', ''assignee''] = JUndef"
    using o by blast
  show "(\<forall>k\<in>set [''reporter'', ''created_by'']. js_prop raw k = JUndef) \<longrightarrow>
          field_at out [''fields'', ''reporter''] = JUndef"
    using o by blast
  show "js_prop raw ''priority'' = JUndef \<longrightarrow> field_at out [''fields'', ''priority''] = JUndef"
    using o by blast
  show "field_at out [''fields'', ''assignee''] \<noteq> JUndef \<longrightarrow>
          field_at out [''fields'', ''assignee'', ''displayName''] \<noteq> JUndef \<and>
          field_at out [''fields'', ''assignee'', ''emailAddress''] \<noteq> JUndef"
    using o by blast
  show "field_at out [''fields'', ''reporter''] \<noteq> JUndef \<longrightarrow>
          field_at out [''fields'', ''reporter'', ''displayName''] \<noteq> JUndef \<and>
          field_at out [''fields'', ''reporter'', ''emailAddress''] \<noteq> JUndef"
    using o by blast
  show "field_at out [''fields'', ''priority''] \<noteq> JUndef \<longrightarrow>
          field_at out [''fields'', ''priority'', ''name''] \<noteq> JUndef \<and>
          field_at out [''fields'', ''priority'', ''id''] \<noteq> JUndef"
    using o by blast
qed

lemma page_per_field:
  assumes a: "normalizeCustomPage now raw = Inr out"
  shows "(\<forall>p\<in>set page_required. field_at out p \<noteq> JUndef) \<and>
      (\<forall>(path, aliases, d)\<in>set (page_aliases now).
          (\<forall>k\<in>set aliases. js_prop raw k = JUndef) \<longrightarrow> field_at out path = d) \<and>
      ((\<forall>k\<in>set [''space'', ''space_key'']. js_prop raw k = JUndef) \<longrightarrow>
          field_at out [''space''] = JUndef)"
proof (intro conjI)
  show "\<forall>p\<in>set page_required. field_at out p \<noteq> JUndef"
    using a by (rule page_required_defined)
  show "\<forall>(path, aliases, d)\<in>set (page_aliases now).
          (\<forall>k\<in>set aliases. js_prop raw k = JUndef) \<longrightarrow> field_at out path = d"
    using a by (intro table_defaults page_alias_table)
  show "(\<forall>k\<in>set [''space'', ''space_key'']. js_prop raw k = JUndef) \<longrightarrow>
          field_at out [''space''] = JUndef"
    using page_space_absent [OF a] by blast
qed

lemma jira_comment_per_field:
  assumes a: "jira_normalizeCustomComment now raw = Inr out"
  shows "(\<forall>p\<in>set jira_comment_required. field_at out p \<noteq> JUndef) \<and>
      (\<forall>(path, aliases, d)\<in>set (jira_comment_aliases now).
          (\<forall>k\<in>set aliases. js_prop raw k = JUndef) \<longrightarrow> field_at out path = d)"
proof (intro conjI)
  show "\<forall>p\<in>set jira_comment_required. field_at out p \<noteq> JUndef"
    using a by (rule jira_comment_required_defined)
  show "\<forall>(path, aliases, d)\<in>set (jira_comment_aliases now).
          (\<forall>k\<in>set aliases. js_prop raw k = JUndef) \<longrightarrow> field_at out path = d"
    using a by (intro table_defaults jira_comment_alias_table)
qed

lemma confluence_comment_per_field:
  assumes a: "confluence_normalizeCustomComment t raw = Inr out"
  shows "(\<forall>p\<in>set confluence_comment_required. field_at out p \<noteq> JUndef) \<and>
      (\<forall>(path, aliases, d)\<in>set (confluence_comment_aliases t).
          (\<forall>k\<in>set aliases. js_prop raw k = JUndef) \<longrightarrow> field_at out path = d)"
proof (intro conjI)
  show "\<forall>p\<in>set confluence_comment_required. field_at out p \<noteq> JUndef"
    using a by (rule confluence_comment_required_defined)
  show "\<forall>(path, aliases, d)\<in>set (confluence_comment_aliases t).
          (\<forall>k\<in>set aliases. js_prop raw k = JUndef) \<longrightarrow> field_at out path = d"
    using a by (intro table_defaults confluence_comment_alias_table)
qed

lemma project_per_field:
  assumes a: "normalizeCustomProject raw = Inr out"
  shows "(\<forall>p\<in>set project_required. field_at out p \<noteq> JUndef) \<and>
      (\<forall>(path, aliases, d)\<in>set project_aliases.
          (\<forall>k\<in>set aliases. js_prop raw k = JUndef) \<longrightarrow> field_at out path = d) \<and>
      ((\<forall>k\<in>set [''lead'', ''owner'']. js_prop raw k = JUndef) \<longrightarrow> field_at out [''lead''] = JUndef) \<and>
      (field_at out [''lead''] \<noteq> JUndef \<longrightarrow> field_at out [''lead'', ''displayName''] \<noteq> JUndef)"
proof (intro conjI)
  show "\<forall>p\<in>set project_required. field_at out p \<noteq> JUndef"
    using a by (rule project_required_defined)
  show "\<forall>(path, aliases, d)\<in>set project_aliases.
          (\<forall>k\<in>set aliases. js_prop raw k = JUndef) \<longrightarrow> field_at out path = d"
    using a by (intro table_defaults project_alias_table)
  show "(\<forall>k\<in>set [''lead'', ''owner'']. js_prop raw k = JUndef) \<longrightarrow> field_at out [''lead''] = JUndef"
    using project_optional [OF a] by blast
  show "field_at out [''lead''] \<noteq> JUndef \<longrightarrow> field_at out [''lead'', ''displayName''] \<noteq> JUndef"
    using project_optional [OF a] by blast
qed

lemma space_per_field:
  assumes a: "normalizeCustomSpace raw = Inr out"
  shows "(\<forall>p\<in>set space_required. field_at out p \<noteq> JUndef) \<and>
      (\<forall>(path, aliases, d)\<in>set space_aliases.
          (\<forall>k\<in>set aliases. js_prop raw k = JUndef) \<longrightarrow> field_at out path = d)"
proof (intro conjI)
  show "\<forall>p\<in>set space_required. field_at out p \<noteq> JUndef"
    using a by (rule space_required_defined)
  show "\<forall>(path, aliases, d)\<in>set space_aliases.
          (\<forall>k\<in>set aliases. js_prop raw k = JUndef) \<longrightarrow> field_at out path = d"
    using a by (intro table_defaults space_alias_table)
qed

lemma jql_keys_exact:
  "map fst (parseJqlToFilters q) =
     filter (\<lambda>k. first_clause k q \<noteq> None) [''project'', ''status'', ''assignee'']"
  by (simp add: jql_shape split: option.splits)

lemma jql_project_status:
  "map_of (parseJqlToFilters q) ''project'' = map_option strip_quotes (first_clause ''project'' q)"
  "map_of (parseJqlToFilters q) ''status'' = map_option strip_quotes (first_clause ''status'' q)"
  by (simp_all add: jql_shape split: option.splits)

lemma jql_assignee:
  assumes "first_clause ''assignee'' q = Some v"
  shows "strip_quotes v \<noteq> ''currentuser()'' \<Longrightarrow>
           map_of (parseJqlToFilters q) ''assignee'' = Some (strip_quotes v)"
    and "strip_quotes v = ''currentuser()'' \<Longrightarrow>
           map_of (parseJqlToFilters q) ''assignee'' = Some ''me''"
  using assms by (simp_all add: jql_shape split: option.splits)

lemma string_reporter:
  assumes "js_prop raw ''reporter'' = JStr s"
  shows "field_of (normalizeCustomIssue now raw) [''fields'', ''reporter''] =
           Some (if s \<noteq> [] \<or> truthy (js_prop raw ''created_by'')
                 then JObj [(''displayName'', first_truthy [js_prop raw ''created_by''] (JStr [])),
                            (''emailAddress'', JStr [])]
                 else JUndef)"
proof -
  have nn: "\<not> nullish raw"
    using assms(1) by (auto simp: nullish_def js_prop_def)
  obtain out where r: "normalizeCustomIssue now raw = Inr out"
    using nn by (simp add: normalizeCustomIssue_def)
  have p: "js_prop (JStr s) ''name'' = JUndef" "js_prop (JStr s) ''email'' = JUndef"
    by (simp_all add: js_prop_def)
  have "field_at out [''fields'', ''reporter''] =
      (if s \<noteq> [] \<or> truthy (js_prop raw ''created_by'')
       then JObj [(''displayName'', first_truthy [js_prop raw ''created_by''] (JStr [])),
                  (''emailAddress'', JStr [])]
       else JUndef)"
    using issue_nested [OF r] assms p
    by (auto simp add: opt_prop_def nullish_def truthy_simps)
  then show ?thesis
    unfolding r field_of_def by simp
qed

lemma string_priority:
  assumes "js_prop raw ''priority'' = JStr s"
  shows "field_of (normalizeCustomIssue now raw) [''fields'', ''priority''] =
           Some (if s \<noteq> []
                 then JObj [(''name'', JStr s), (''id'', first_truthy [js_prop raw ''priority_id''] (JStr ''3''))]
                 else JUndef)"
proof -
  have nn: "\<not> nullish raw"
    using assms(1) by (auto simp: nullish_def js_prop_def)
  obtain out where r: "normalizeCustomIssue now raw = Inr out"
    using nn by (simp add: normalizeCustomIssue_def)
  have "field_at out [''fields'', ''priority''] =
      (if s \<noteq> []
       then JObj [(''name'', JStr s), (''id'', first_truthy [js_prop raw ''priority_id''] (JStr ''3''))]
       else JUndef)"
    using issue_nested [OF r] assms
    by (simp add: truthy_simps)
  then show ?thesis
    unfolding r field_of_def by simp
qed

lemma empty_assignee:
  assumes "js_prop raw ''assignee'' = JStr []"
  shows "field_of (normalizeCustomIssue now raw) [''fields'', ''assignee''] = Some JUndef"
proof -
  have nn: "\<not> nullish raw"
    using assms(1) by (auto simp: nullish_def js_prop_def)
  obtain out where r: "normalizeCustomIssue now raw = Inr out"
    using nn by (simp add: normalizeCustomIssue_def)
  have "field_at out [''fields'', ''assignee''] = JUndef"
    using issue_nested [OF r] assms by (simp add: truthy_simps)
  then show ?thesis
    unfolding r field_of_def by simp
qed

lemma string_lead:
  assumes "js_prop raw ''lead'' = JStr s"
  shows "field_of (normalizeCustomProject raw) [''lead''] =
           Some (if s \<noteq> [] \<or> truthy (js_prop raw ''owner'')
                 then JObj [(''displayName'', first_truthy [js_prop raw ''owner''] (JStr []))]
                 else JUndef)"
proof -
  have nn: "\<not> nullish raw"
    using assms(1) by (auto simp: nullish_def js_prop_def)
  obtain out where r: "normalizeCustomProject raw = Inr out"
    using nn by (simp add: normalizeCustomProject_def)
  have p: "js_prop (JStr s) ''name'' = JUndef"
    by (simp add: js_prop_def)
  have "field_at out [''lead''] =
      (if s \<noteq> [] \<or> truthy (js_prop raw ''owner'')
       then JObj [(''displayName'', first_truthy [js_prop raw ''owner''] (JStr []))]
       else JUndef)"
    using project_lead [OF r] assms p
    by (auto simp add: opt_prop_def nullish_def truthy_simps)
  then show ?thesis
    unfolding r field_of_def by simp
qed

lemma empty_space:
  assumes "js_prop raw ''space'' = JStr []" and "normalizeCustomPage now raw = Inr out"
  shows "field_at out [''space''] =
           (if truthy (js_prop raw ''space_key'')
            then JObj [(''key'', js_prop raw ''space_key''), (''name'', js_prop raw ''space_key'')]
            else JUndef)"
  using page_space_value [OF page_space_field [OF assms(2), symmetric]] assms(1)
  by (simp add: truthy_simps typeof_object_def)

lemma page_space_returns_iff:
  "(\<exists>space. page_space raw = Inr space) =
     (\<not> (js_prop raw ''space'' = JNull \<and> truthy (js_prop raw ''space_key'')))"
  by (cases "js_prop raw ''space''")
     (auto simp: page_space_def get_def nullish_def typeof_object_def or_js_simps truthy_simps)

lemma page_returns_iff:
  "(\<exists>out. normalizeCustomPage now raw = Inr out) =
     (\<not> nullish raw \<and>
      \<not> (js_prop raw ''space'' = JNull \<and> truthy (js_prop raw ''space_key'')) \<and>
      (\<exists>ident. to_str (or_js (js_prop raw ''id'') (js_prop raw ''page_id'')) = Inr ident))"
proof
  assume "\<exists>out. normalizeCustomPage now raw = Inr out"
  then obtain out where r: "normalizeCustomPage now raw = Inr out" ..
  show "\<not> nullish raw \<and>
      \<not> (js_prop raw ''space'' = JNull \<and> truthy (js_prop raw ''space_key'')) \<and>
      (\<exists>ident. to_str (or_js (js_prop raw ''id'') (js_prop raw ''page_id'')) = Inr ident)"
    using page_returns(1,3,4) [OF r] page_space_returns_iff [of raw] by blast
next
  assume a: "\<not> nullish raw \<and>
      \<not> (js_prop raw ''space'' = JNull \<and> truthy (js_prop raw ''space_key'')) \<and>
      (\<exists>ident. to_str (or_js (js_prop raw ''id'') (js_prop raw ''page_id'')) = Inr ident)"
  then obtain space ident where "page_space raw = Inr space"
      "to_str (or_js (js_prop raw ''id'') (js_prop raw ''page_id'')) = Inr ident"
    using page_space_returns_iff [of raw] by blast
  then show "\<exists>out. normalizeCustomPage now raw = Inr out"
    using a by (simp add: normalizeCustomPage_def)
qed

section \<open>The claims\<close>

subsection \<open>C1\<close>

text \<open>
  C1, as stated, fails on the empty object: the issue it yields has an undefined
  description and the project an undefined lead. And a page whose raw space is the empty
  object has a space with an undefined key.
\<close>

theorem canonical_field_undefined_counterexample:
  "field_of (normalizeCustomIssue (''2024-01-01T00:00:00.000Z'', ''2024-01-01T00:00:00.001Z'') (JObj []))
     [''fields'', ''description''] = Some JUndef \<and>
   field_of (normalizeCustomProject (JObj [])) [''lead''] = Some JUndef \<and>
   field_of (normalizeCustomPage (''2024-01-01T00:00:00.000Z'', ''2024-01-01T00:00:00.001Z'')
       (JObj [(''space'', JObj [])]))
     [''space'', ''key''] = Some JUndef"
  by (simp add: normalizeCustomIssue_def normalizeCustomProject_def normalizeCustomPage_def page_space_def
      field_of_def nullish_def js_prop_Nil js_prop_Cons truthy_simps or_js_simps typeof_object_def get_def)

text \<open>
  C1, amended: whenever one of the six normalizers returns, every canonical field that
  is not optional is defined, and each field of the normalizer's alias table whose aliases
  the raw object all lacks holds the default of the table (for a time stamp the reading of
  the clock), whatever else the raw object has. The fields outside the tables have no
  default: an issue's description, assignee, reporter and priority, a page's space and a
  project's lead are undefined when the raw object lacks their aliases. An assignee, a
  reporter, a priority and a lead that are there have their own fields defined.
\<close>

theorem fields_default_per_alias:
  "(normalizeCustomIssue now raw = Inr out \<longrightarrow>
      (\<forall>p\<in>set issue_required. field_at out p \<noteq> JUndef) \<and>
      (\<forall>(path, aliases, d)\<in>set (issue_aliases now).
          (\<forall>k\<in>set aliases. js_prop raw k = JUndef) \<longrightarrow> field_at out path = d) \<and>
      ((\<forall>k\<in>set [''description'', ''body'', ''content'']. js_prop raw k = JUndef) \<longrightarrow>
          field_at out [''fields'', ''description''] = JUndef) \<and>
      (js_prop raw ''assignee'' = JUndef \<longrightarrow> field_at out [''fields'', ''assignee''] = JUndef) \<and>
      ((\<forall>k\<in>set [''reporter'', ''created_by'']. js_prop raw k = JUndef) \<longrightarrow>
          field_at out [''fields'', ''reporter''] = JUndef) \<and>
      (js_prop raw ''priority'' = JUndef \<longrightarrow> field_at out [''fields'', ''priority''] = JUndef) \<and>
      (field_at out [''fields'', ''assignee''] \<noteq> JUndef \<longrightarrow>
          field_at out [''fields'', ''assignee'', ''displayName''] \<noteq> JUndef \<and>
          field_at out [''fields'', ''assignee'', ''emailAddress''] \<noteq> JUndef) \<and>
      (field_at out [''fields'', ''reporter''] \<noteq> JUndef \<longrightarrow>
          field_at out [''fields'', ''reporter'', ''displayName''] \<noteq> JUndef \<and>
          field_at out [''fields'', ''reporter'', ''emailAddress''] \<noteq> JUndef) \<and>
      (field_at out [''fields'', ''priority''] \<noteq> JUndef \<longrightarrow>
          field_at out [''fields'', ''priority'', ''name''] \<noteq> JUndef \<and>
          field_at out [''fields'', ''priority'', ''id''] \<noteq> JUndef)) \<and>
   (normalizeCustomPage now raw = Inr out \<longrightarrow>
      (\<forall>p\<in>set page_required. field_at out p \<noteq> JUndef) \<and>
      (\<forall>(path, aliases, d)\<in>set (page_aliases now).
          (\<forall>k\<in>set aliases. js_prop raw k = JUndef) \<longrightarrow> field_at out path = d) \<and>
      ((\<forall>k\<in>set [''space'', ''space_key'']. js_prop raw k = JUndef) \<longrightarrow>
          field_at out [''space''] = JUndef)) \<and>
   (jira_normalizeCustomComment now raw = Inr out \<longrightarrow>
      (\<forall>p\<in>set jira_comment_required. field_at out p \<noteq> JUndef) \<and>
      (\<forall>(path, aliases, d)\<in>set (jira_comment_aliases now).
          (\<forall>k\<in>set aliases. js_prop raw k = JUndef) \<longrightarrow> field_at out path = d)) \<and>
   (confluence_normalizeCustomComment t raw = Inr out \<longrightarrow>
      (\<forall>p\<in>set confluence_comment_required. field_at out p \<noteq> JUndef) \<and>
      (\<forall>(path, aliases, d)\<in>set (confluence_comment_aliases t).
          (\<forall>k\<in>set aliases. js_prop raw k = JUndef) \<longrightarrow> field_at out path = d)) \<and>
   (normalizeCustomProject raw = Inr out \<longrightarrow>
      (\<forall>p\<in>set project_required. field_at out p \<noteq> JUndef) \<and>
      (\<forall>(path, aliases, d)\<in>set project_aliases.
          (\<forall>k\<in>set aliases. js_prop raw k = JUndef) \<longrightarrow> field_at out path = d) \<and>
      ((\<forall>k\<in>set [''lead'', ''owner'']. js_prop raw k = JUndef) \<longrightarrow> field_at out [''lead''] = JUndef) \<and>
      (field_at out [''lead''] \<noteq> JUndef \<longrightarrow> field_at out [''lead'', ''displayName''] \<noteq> JUndef)) \<and>
   (normalizeCustomSpace raw = Inr out \<longrightarrow>
      (\<forall>p\<in>set space_required. field_at out p \<noteq> JUndef) \<and>
      (\<forall>(path, aliases, d)\<in>set space_aliases.
          (\<forall>k\<in>set aliases. js_prop raw k = JUndef) \<longrightarrow> field_at out path = d))"
  by (intro conjI; rule impI;
      erule issue_per_field page_per_field jira_comment_per_field confluence_comment_per_field
        project_per_field space_per_field)

text \<open>
  An object with a title and an author only: each normalizer returns on it, takes the
  title and the author where it has these aliases, and fills every other field of its table
  with the default; the optional fields are undefined.
\<close>

theorem fields_default_per_alias_witness:
  "(\<exists>out. normalizeCustomIssue (''t1'', ''t2'') (JObj [(''title'', JStr ''T''), (''author'', JStr ''ann'')]) = Inr out \<and>
      field_at out [''fields'', ''summary''] = JStr ''T'' \<and>
      field_at out [''id''] = JStr [] \<and>
      field_at out [''fields'', ''status'', ''name''] = JStr ''Unknown'' \<and>
      field_at out [''fields'', ''created''] = JStr ''t1'' \<and>
      field_at out [''fields'', ''labels''] = JArr [] \<and>
      field_at out [''fields'', ''description''] = JUndef \<and>
      field_at out [''fields'', ''assignee''] = JUndef) \<and>
   (\<exists>out. normalizeCustomPage (''t1'', ''t2'') (JObj [(''title'', JStr ''T''), (''author'', JStr ''ann'')]) = Inr out \<and>
      field_at out [''title''] = JStr ''T'' \<and>
      field_at out [''status''] = JStr ''current'' \<and>
      field_at out [''version'', ''number''] = JNum 1 \<and>
      field_at out [''space''] = JUndef) \<and>
   (\<exists>out. jira_normalizeCustomComment (''t1'', ''t2'') (JObj [(''title'', JStr ''T''), (''author'', JStr ''ann'')]) = Inr out \<and>
      field_at out [''author'', ''displayName''] = JStr ''ann'' \<and>
      field_at out [''body''] = JStr [] \<and>
      field_at out [''updated''] = JStr ''t2'') \<and>
   (\<exists>out. confluence_normalizeCustomComment ''t1'' (JObj [(''title'', JStr ''T''), (''author'', JStr ''ann'')]) = Inr out \<and>
      field_at out [''title''] = JStr ''T'' \<and>
      field_at out [''version'', ''when''] = JStr ''t1'') \<and>
   (\<exists>out. normalizeCustomProject (JObj [(''title'', JStr ''T''), (''author'', JStr ''ann'')]) = Inr out \<and>
      field_at out [''name''] = JStr ''T'' \<and>
      field_at out [''key''] = JStr [] \<and>
      field_at out [''lead''] = JUndef) \<and>
   (\<exists>out. normalizeCustomSpace (JObj [(''title'', JStr ''T''), (''author'', JStr ''ann'')]) = Inr out \<and>
      field_at out [''name''] = JStr ''T'' \<and>
      field_at out [''type''] = JStr ''global'')"
proof -
  let ?T = "(''t1'', ''t2'')"
  let ?raw = "JObj [(''title'', JStr ''T''), (''author'', JStr ''ann'')]"
  note c2 = conjunct2
  note e = js_prop_Cons js_prop_Nil or_js_simps truthy_simps nullish_def
  have 1: "\<exists>out. normalizeCustomIssue ?T ?raw = Inr out \<and>
      field_at out [''fields'', ''summary''] = JStr ''T'' \<and>
      field_at out [''id''] = JStr [] \<and>
      field_at out [''fields'', ''status'', ''name''] = JStr ''Unknown'' \<and>
      field_at out [''fields'', ''created''] = JStr ''t1'' \<and>
      field_at out [''fields'', ''labels''] = JArr [] \<and>
      field_at out [''fields'', ''description''] = JUndef \<and>
      field_at out [''fields'', ''assignee''] = JUndef"
  proof -
    obtain out where r: "normalizeCustomIssue ?T ?raw = Inr out"
        and s: "field_at out [''fields'', ''summary''] = JStr ''T''"
      by (simp add: normalizeCustomIssue_def e)
    show ?thesis
      using r s fields_default_per_alias [where now = ?T and raw = ?raw and out = out,
          THEN conjunct1, rule_format, OF r]
      by (simp add: issue_aliases_def e)
  qed
  have 2: "\<exists>out. normalizeCustomPage ?T ?raw = Inr out \<and>
      field_at out [''title''] = JStr ''T'' \<and>
      field_at out [''status''] = JStr ''current'' \<and>
      field_at out [''version'', ''number''] = JNum 1 \<and>
      field_at out [''space''] = JUndef"
  proof -
    obtain out where r: "normalizeCustomPage ?T ?raw = Inr out"
        and s: "field_at out [''title''] = JStr ''T''"
      by (simp add: normalizeCustomPage_def page_space_def e)
    show ?thesis
      using r s fields_default_per_alias [where now = ?T and raw = ?raw and out = out,
          THEN c2, THEN conjunct1, rule_format, OF r]
      by (simp add: page_aliases_def e)
  qed
  have 3: "\<exists>out. jira_normalizeCustomComment ?T ?raw = Inr out \<and>
      field_at out [''author'', ''displayName''] = JStr ''ann'' \<and>
      field_at out [''body''] = JStr [] \<and>
      field_at out [''updated''] = JStr ''t2''"
  proof -
    obtain out where r: "jira_normalizeCustomComment ?T ?raw = Inr out"
        and s: "field_at out [''author'', ''displayName''] = JStr ''ann''"
      by (simp add: jira_normalizeCustomComment_def e)
    show ?thesis
      using r s fields_default_per_alias [where now = ?T and raw = ?raw and out = out,
          THEN c2, THEN c2, THEN conjunct1, rule_format, OF r]
      by (simp add: jira_comment_aliases_def e)
  qed
  have 4: "\<exists>out. confluence_normalizeCustomComment ''t1'' ?raw = Inr out \<and>
      field_at out [''title''] = JStr ''T'' \<and>
      field_at out [''version'', ''when''] = JStr ''t1''"
  proof -
    obtain out where r: "confluence_normalizeCustomComment ''t1'' ?raw = Inr out"
        and s: "field_at out [''title''] = JStr ''T''"
      by (simp add: confluence_normalizeCustomComment_def e)
    show ?thesis
      using r s fields_default_per_alias [where t = "''t1''" and raw = ?raw and out = out,
          THEN c2, THEN c2, THEN c2, THEN conjunct1, rule_format, OF r]
      by (simp add: confluence_comment_aliases_def e)
  qed
  have 5: "\<exists>out. normalizeCustomProject ?raw = Inr out \<and>
      field_at out [''name''] = JStr ''T'' \<and>
      field_at out [''key''] = JStr [] \<and>
      field_at out [''lead''] = JUndef"
  proof -
    obtain out where r: "normalizeCustomProject ?raw = Inr out"
        and s: "field_at out [''name''] = JStr ''T''"
      by (simp add: normalizeCustomProject_def e)
    show ?thesis
      using r s fields_default_per_alias [where raw = ?raw and out = out,
          THEN c2, THEN c2, THEN c2, THEN c2, THEN conjunct1, rule_format, OF r]
      by (simp add: project_aliases_def e)
  qed
  have 6: "\<exists>out. normalizeCustomSpace ?raw = Inr out \<and>
      field_at out [''name''] = JStr ''T'' \<and>
      field_at out [''type''] = JStr ''global''"
  proof -
    obtain out where r: "normalizeCustomSpace ?raw = Inr out"
        and s: "field_at out [''name''] = JStr ''T''"
      by (simp add: normalizeCustomSpace_def e)
    show ?thesis
      using r s fields_default_per_alias [where raw = ?raw and out = out,
          THEN c2, THEN c2, THEN c2, THEN c2, THEN c2, rule_format, OF r]
      by (simp add: space_aliases_def e)
  qed
  from 1 2 3 4 5 6 show ?thesis by (intro conjI)
qed

subsection \<open>C2\<close>

text \<open>
  C2, as stated, fails where an alias is present and not null but falsy: with an empty
  \<^verbatim>\<open>title\<close> and the \<^verbatim>\<open>summary\<close> S the canonical summary is S, not the value of the
  first alias present.
\<close>

theorem falsy_alias_skipped_counterexample:
  "field_of (normalizeCustomIssue (''2024-01-01T00:00:00.000Z'', ''2024-01-01T00:00:00.001Z'')
       (JObj [(''title'', JStr []), (''summary'', JStr ''S'')]))
     [''fields'', ''summary''] = Some (JStr ''S'') \<and>
   first_present (map (js_prop (JObj [(''title'', JStr []), (''summary'', JStr ''S'')]))
       [''title'', ''summary'', ''name'']) (JStr []) = JStr []"
  by (simp add: normalizeCustomIssue_def field_of_def nullish_def js_prop_Nil js_prop_Cons truthy_simps
      or_js_simps)

text \<open>
  C2, amended: whenever the issue or the page normalizer returns, each canonical field
  of the alias tables is the first truthy value among its aliases, in their order, or the
  default when none is truthy; the issue description falls through to the value of its
  last alias; assignee, reporter, priority and the page's space are built from their
  aliases when the source value is truthy and are undefined otherwise.
\<close>

theorem alias_priority_by_truthiness:
  "(normalizeCustomIssue now raw = Inr out \<longrightarrow>
      (\<forall>(path, aliases, d)\<in>set (issue_aliases now).
          field_at out path = first_truthy (map (js_prop raw) aliases) d) \<and>
      field_at out [''fields'', ''description''] =
        first_truthy (map (js_prop raw) [''description'', ''body'']) (js_prop raw ''content'') \<and>
      field_at out [''fields'', ''assignee''] =
        (if truthy (js_prop raw ''assignee'') then JObj [
           (''displayName'', first_truthy
               [js_prop (js_prop raw ''assignee'') ''name'', js_prop raw ''assignee''] (JStr [])),
           (''emailAddress'', first_truthy [js_prop (js_prop raw ''assignee'') ''email''] (JStr []))]
         else JUndef) \<and>
      field_at out [''fields'', ''reporter''] =
        (if truthy (first_truthy (map (js_prop raw) [''reporter'']) (js_prop raw ''created_by'')) then JObj [
           (''displayName'', first_truthy
               [opt_prop (js_prop raw ''reporter'') ''name'', js_prop raw ''created_by''] (JStr [])),
           (''emailAddress'', first_truthy [opt_prop (js_prop raw ''reporter'') ''email''] (JStr []))]
         else JUndef) \<and>
      field_at out [''fields'', ''priority''] =
        (if truthy (js_prop raw ''priority'') then JObj [
           (''name'', js_prop raw ''priority''),
           (''id'', first_truthy (map (js_prop raw) [''priority_id'']) (JStr ''3''))]
         else JUndef)) \<and>
   (normalizeCustomPage now raw = Inr out \<longrightarrow>
      (\<forall>(path, aliases, d)\<in>set (page_aliases now).
          field_at out path = first_truthy (map (js_prop raw) aliases) d) \<and>
      field_at out [''space''] =
        (if truthy (first_truthy (map (js_prop raw) [''space'']) (js_prop raw ''space_key'')) then
           (if typeof_object (js_prop raw ''space'') then JObj [
              (''key'', js_prop (js_prop raw ''space'') ''key''),
              (''name'', js_prop (js_prop raw ''space'') ''name'')]
            else JObj [
              (''key'', first_truthy (map (js_prop raw) [''space'']) (js_prop raw ''space_key'')),
              (''name'', first_truthy (map (js_prop raw) [''space'']) (js_prop raw ''space_key''))])
         else JUndef))"
proof (intro conjI impI)
  assume a: "normalizeCustomPage now raw = Inr out"
  show "field_at out [''space''] =
        (if truthy (first_truthy (map (js_prop raw) [''space'']) (js_prop raw ''space_key'')) then
           (if typeof_object (js_prop raw ''space'') then JObj [
              (''key'', js_prop (js_prop raw ''space'') ''key''),
              (''name'', js_prop (js_prop raw ''space'') ''name'')]
            else JObj [
              (''key'', first_truthy (map (js_prop raw) [''space'']) (js_prop raw ''space_key'')),
              (''name'', first_truthy (map (js_prop raw) [''space'']) (js_prop raw ''space_key''))])
         else JUndef)"
    using page_space_value [OF page_space_field [OF a, symmetric]] .
qed (use issue_alias_table issue_nested page_alias_table in blast)+

text \<open>
  A title 0 is skipped for the summary, a missing assignee is undefined, a missing version
  is 1 and a space key alone gives the space.
\<close>

theorem alias_priority_by_truthiness_witness:
  "(\<exists>out. normalizeCustomIssue (''t1'', ''t2'')
        (JObj [(''title'', JNum 0), (''summary'', JStr ''S''), (''space_key'', JStr ''DEMO'')]) = Inr out \<and>
      field_at out [''fields'', ''summary''] = JStr ''S'' \<and>
      field_at out [''fields'', ''assignee''] = JUndef) \<and>
   (\<exists>out. normalizeCustomPage (''t1'', ''t2'')
        (JObj [(''title'', JNum 0), (''summary'', JStr ''S''), (''space_key'', JStr ''DEMO'')]) = Inr out \<and>
      field_at out [''version'', ''number''] = JNum 1 \<and>
      field_at out [''space''] = JObj [(''key'', JStr ''DEMO''), (''name'', JStr ''DEMO'')])"
proof -
  let ?T = "(''t1'', ''t2'')"
  let ?raw = "JObj [(''title'', JNum 0), (''summary'', JStr ''S''), (''space_key'', JStr ''DEMO'')]"
  obtain out where i: "normalizeCustomIssue ?T ?raw = Inr out"
    by (simp add: normalizeCustomIssue_def nullish_def)
  obtain out' where p: "normalizeCustomPage ?T ?raw = Inr out'"
    by (simp add: normalizeCustomPage_def page_space_def nullish_def js_prop_Cons js_prop_Nil
        or_js_simps truthy_simps typeof_object_def)
  have "field_at out [''fields'', ''summary''] = JStr ''S'' \<and> field_at out [''fields'', ''assignee''] = JUndef"
    using alias_priority_by_truthiness [of ?T ?raw out, THEN conjunct1, rule_format, OF i]
    by (simp add: issue_aliases_def js_prop_Cons js_prop_Nil truthy_simps)
  moreover
  have "field_at out' [''version'', ''number''] = JNum 1 \<and>
        field_at out' [''space''] = JObj [(''key'', JStr ''DEMO''), (''name'', JStr ''DEMO'')]"
    using alias_priority_by_truthiness [of ?T ?raw out', THEN conjunct2, rule_format, OF p]
    by (simp add: page_aliases_def js_prop_Cons js_prop_Nil truthy_simps typeof_object_def)
  ultimately show ?thesis
    using i p by blast
qed

subsection \<open>C3\<close>

text \<open>
  C3, as stated, fails: normalized again, an issue with a title has the empty summary,
  and a page with content has its whole body object as the stored value.
\<close>

theorem normalize_not_idempotent_counterexample:
  "field_of (normalizeCustomIssue (''t1'', ''t2'') (JObj [(''title'', JStr ''T'')]))
      [''fields'', ''summary''] = Some (JStr ''T'') \<and>
   field_of (twice (normalizeCustomIssue (''t1'', ''t2'')) (JObj [(''title'', JStr ''T'')]))
      [''fields'', ''summary''] = Some (JStr []) \<and>
   field_of (normalizeCustomPage (''t1'', ''t2'') (JObj [(''content'', JStr ''text'')]))
      [''body'', ''storage'', ''value''] = Some (JStr ''text'') \<and>
   field_of (twice (normalizeCustomPage (''t1'', ''t2'')) (JObj [(''content'', JStr ''text'')]))
      [''body'', ''storage'', ''value''] = Some (JObj [
         (''storage'', JObj [(''value'', JStr ''text''), (''representation'', JStr ''storage'')]),
         (''view'', JObj [(''value'', JStr ''text''), (''representation'', JStr ''view'')])])"
  by (simp add: twice_def normalizeCustomIssue_def normalizeCustomPage_def page_space_def field_of_def
      nullish_def js_prop_Nil js_prop_Cons truthy_simps or_js_simps)

text \<open>
  C3, amended: when a normalizer returns, it returns on its own output too, and the
  second entity has the same id as the first; for pages also the same title, type, status
  and space.
\<close>

theorem renormalize_keeps_identity:
  "(normalizeCustomIssue now raw = Inr out \<longrightarrow>
      (\<exists>out2. normalizeCustomIssue now' out = Inr out2 \<and>
         field_at out2 [''id''] = field_at out [''id''])) \<and>
   (normalizeCustomPage now raw = Inr out \<longrightarrow>
      (\<exists>out2. normalizeCustomPage now' out = Inr out2 \<and>
         field_at out2 [''id''] = field_at out [''id''] \<and>
         field_at out2 [''title''] = field_at out [''title''] \<and>
         field_at out2 [''type''] = field_at out [''type''] \<and>
         field_at out2 [''status''] = field_at out [''status''] \<and>
         field_at out2 [''space''] = field_at out [''space'']))"
  using issue_twice page_twice by blast

text \<open>
  An object with id 7 and title T keeps the id through two issue normalizations and the
  title through two page normalizations.
\<close>

theorem renormalize_keeps_identity_witness:
  "(\<exists>out out2. normalizeCustomIssue (''t1'', ''t2'') (JObj [(''id'', JStr ''7''), (''title'', JStr ''T'')]) = Inr out \<and>
      normalizeCustomIssue (''t3'', ''t4'') out = Inr out2 \<and> field_at out2 [''id''] = JStr ''7'') \<and>
   (\<exists>out out2. normalizeCustomPage (''t1'', ''t2'') (JObj [(''id'', JStr ''7''), (''title'', JStr ''T'')]) = Inr out \<and>
      normalizeCustomPage (''t3'', ''t4'') out = Inr out2 \<and> field_at out2 [''title''] = JStr ''T'')"
proof -
  let ?raw = "JObj [(''id'', JStr ''7''), (''title'', JStr ''T'')]"
  obtain out where i: "normalizeCustomIssue (''t1'', ''t2'') ?raw = Inr out"
      and i': "field_at out [''id''] = JStr ''7''"
    by (simp add: normalizeCustomIssue_def nullish_def js_prop_Cons js_prop_Nil or_js_simps)
  obtain out' where p: "normalizeCustomPage (''t1'', ''t2'') ?raw = Inr out'"
      and p': "field_at out' [''title''] = JStr ''T''"
    by (simp add: normalizeCustomPage_def page_space_def nullish_def js_prop_Cons js_prop_Nil
        or_js_simps truthy_simps)
  from renormalize_keeps_identity [of "(''t1'', ''t2'')" ?raw out "(''t3'', ''t4'')", THEN conjunct1, rule_format, OF i]
  obtain out2 where "normalizeCustomIssue (''t3'', ''t4'') out = Inr out2" "field_at out2 [''id''] = JStr ''7''"
    using i' by auto
  moreover
  from renormalize_keeps_identity [of "(''t1'', ''t2'')" ?raw out' "(''t3'', ''t4'')", THEN conjunct2, rule_format, OF p]
  obtain out2' where "normalizeCustomPage (''t3'', ''t4'') out' = Inr out2'" "field_at out2' [''title''] = JStr ''T''"
    using p' by auto
  ultimately show ?thesis
    using i p by blast
qed

subsection \<open>C4\<close>

text \<open>
  C4: the code at \<^verbatim>\<open>assignee = currentUser()\<close>. The value is compared with the lower-case
  literal \<^verbatim>\<open>currentuser()\<close> without being lowered, so it is passed on as it is.
\<close>

theorem currentUser_not_rewritten:
  "parseJqlToFilters ''assignee = currentUser()'' = [(''assignee'', ''currentUser()'')]"
  by code_simp

subsection \<open>C5\<close>

text \<open>
  C5, as stated, fails in its general half. A clause of another field whose name ends in
  a keyword is not discarded: \<^verbatim>\<open>subproject = A\<close> yields the project A. And a quoted value
  is cut at its first white space before the quotes are stripped: \<^verbatim>\<open>status = "To Do"\<close>
  yields the status To.
\<close>

theorem jql_clause_shapes_counterexample:
  \<open>parseJqlToFilters ''subproject = A'' = [(''project'', ''A'')] \<and>
   parseJqlToFilters ''status = "To Do"'' = [(''status'', ''To'')]\<close>
  by code_simp

text \<open>
  C5, amended: the example query yields exactly the project DEMO and the status Open. For
  every query, the result has a filter for a keyword (project, status, assignee, in this
  order, and nothing else) exactly when the keyword occurs somewhere in the query, in any
  case and also at the end of a longer word, followed by optional white space,
  \<^verbatim>\<open>=\<close>, optional white space and at least one more character that is no white space.
  The value of project and of status is taken at the first such place, runs up to the next
  white space and loses every quote character. So is the value of assignee when it is no
  spelling of \<^verbatim>\<open>currentuser()\<close>; when it is \<^verbatim>\<open>currentuser()\<close> in lower case the filter is
  \<^verbatim>\<open>me\<close>.
\<close>

theorem jql_clauses_degraded:
  \<open>parseJqlToFilters ''project = DEMO AND status = "Open"'' = [(''project'', ''DEMO''), (''status'', ''Open'')] \<and>
   map fst (parseJqlToFilters q) =
     filter (\<lambda>k. first_clause k q \<noteq> None) [''project'', ''status'', ''assignee''] \<and>
   map_of (parseJqlToFilters q) ''project'' = map_option strip_quotes (first_clause ''project'' q) \<and>
   map_of (parseJqlToFilters q) ''status'' = map_option strip_quotes (first_clause ''status'' q) \<and>
   (first_clause ''assignee'' q = Some v \<and>
      map canonicalize (strip_quotes v) \<noteq> map canonicalize ''currentuser()'' \<longrightarrow>
      map_of (parseJqlToFilters q) ''assignee'' = Some (strip_quotes v)) \<and>
   (first_clause ''assignee'' q = Some v \<and> strip_quotes v = ''currentuser()'' \<longrightarrow>
      map_of (parseJqlToFilters q) ''assignee'' = Some ''me'')\<close>
proof (intro conjI)
  show \<open>parseJqlToFilters ''project = DEMO AND status = "Open"'' = [(''project'', ''DEMO''), (''status'', ''Open'')]\<close>
    by code_simp
  show "first_clause ''assignee'' q = Some v \<and>
      map canonicalize (strip_quotes v) \<noteq> map canonicalize ''currentuser()'' \<longrightarrow>
      map_of (parseJqlToFilters q) ''assignee'' = Some (strip_quotes v)"
  proof
    assume a: "first_clause ''assignee'' q = Some v \<and>
      map canonicalize (strip_quotes v) \<noteq> map canonicalize ''currentuser()''"
    have "strip_quotes v \<noteq> ''currentuser()''"
    proof
      assume "strip_quotes v = ''currentuser()''"
      then have "map canonicalize (strip_quotes v) = map canonicalize ''currentuser()''"
        by (rule arg_cong)
      with a show False
        by (simp only: simp_thms)
    qed
    then show "map_of (parseJqlToFilters q) ''assignee'' = Some (strip_quotes v)"
      using a jql_assignee(1) [of q v] by blast
  qed
  show "first_clause ''assignee'' q = Some v \<and> strip_quotes v = ''currentuser()'' \<longrightarrow>
      map_of (parseJqlToFilters q) ''assignee'' = Some ''me''"
    using jql_assignee(2) [of q v] by auto
qed (rule jql_keys_exact jql_project_status)+

text \<open>
  A quoted assignee before a project in capitals without white space, and the current
  user in lower case.
\<close>

theorem jql_clauses_degraded_witness:
  \<open>map fst (parseJqlToFilters ''Assignee = "bob" and PROJECT=X'') = [''project'', ''assignee''] \<and>
   map_of (parseJqlToFilters ''Assignee = "bob" and PROJECT=X'') ''project'' = Some ''X'' \<and>
   map_of (parseJqlToFilters ''Assignee = "bob" and PROJECT=X'') ''assignee'' = Some ''bob'' \<and>
   map_of (parseJqlToFilters ''assignee = currentuser()'') ''assignee'' = Some ''me''\<close>
proof -
  have p: \<open>first_clause ''project'' ''Assignee = "bob" and PROJECT=X'' = Some ''X''\<close>
    by code_simp
  have s: \<open>first_clause ''status'' ''Assignee = "bob" and PROJECT=X'' = None\<close>
    by code_simp
  have a: \<open>first_clause ''assignee'' ''Assignee = "bob" and PROJECT=X'' = Some (CHR 0x22 # ''bob'' @ [CHR 0x22])\<close>
    by code_simp
  have a': \<open>strip_quotes (CHR 0x22 # ''bob'' @ [CHR 0x22]) = ''bob''\<close>
    by (simp add: strip_quotes_def)
  have c: \<open>map canonicalize ''bob'' \<noteq> map canonicalize ''currentuser()''\<close>
    by simp
  have m: \<open>first_clause ''assignee'' ''assignee = currentuser()'' = Some ''currentuser()''\<close>
    by code_simp
  have m': \<open>strip_quotes ''currentuser()'' = ''currentuser()''\<close>
    by (simp add: strip_quotes_def)
  note t = jql_clauses_degraded [of \<open>''Assignee = "bob" and PROJECT=X''\<close> \<open>CHR 0x22 # ''bob'' @ [CHR 0x22]\<close>]
  note u = jql_clauses_degraded [of \<open>''assignee = currentuser()''\<close> \<open>''currentuser()''\<close>]
  have 1: \<open>map fst (parseJqlToFilters ''Assignee = "bob" and PROJECT=X'') = [''project'', ''assignee'']\<close>
    using t [THEN conjunct2, THEN conjunct1] by (simp only: filter.simps p s a) simp
  have 2: \<open>map_of (parseJqlToFilters ''Assignee = "bob" and PROJECT=X'') ''project'' = Some ''X''\<close>
    using t [THEN conjunct2, THEN conjunct2, THEN conjunct1] by (simp only: p) (simp add: strip_quotes_def)
  have 3: \<open>map_of (parseJqlToFilters ''Assignee = "bob" and PROJECT=X'') ''assignee'' = Some ''bob''\<close>
    using t [THEN conjunct2, THEN conjunct2, THEN conjunct2, THEN conjunct2, THEN conjunct1] a c
    unfolding a' by blast
  have 4: \<open>map_of (parseJqlToFilters ''assignee = currentuser()'') ''assignee'' = Some ''me''\<close>
    using u [THEN conjunct2, THEN conjunct2, THEN conjunct2, THEN conjunct2, THEN conjunct2] m m'
    by blast
  from 1 2 3 4 show ?thesis by (intro conjI)
qed

subsection \<open>C6\<close>

text \<open>
  C6: the code at the query \<^verbatim>\<open>my page\<close>. \<^verbatim>\<open>split()\<close> has no separator, so the
  query is one term of seven characters and is returned whole; split at white space the
  term \<^verbatim>\<open>my\<close> would be dropped.
\<close>

theorem cql_not_tokenized:
  "parseCqlToSimpleQuery ''my page'' = ''my page'' \<and> cql_as_specified ''my page'' = ''page''"
  by code_simp

subsection \<open>C7\<close>

text \<open>
  C7, as stated, fails at the empty string, which is falsy (the assignee is undefined),
  and for the reporter and the project's lead, where the string is tested and not used: the
  reporter alice and the lead carol have the empty display name.
\<close>

theorem string_field_not_wrapped_counterexample:
  "field_of (normalizeCustomIssue (''2024-01-01T00:00:00.000Z'', ''2024-01-01T00:00:00.001Z'')
       (JObj [(''assignee'', JStr [])]))
     [''fields'', ''assignee''] = Some JUndef \<and>
   field_of (normalizeCustomIssue (''2024-01-01T00:00:00.000Z'', ''2024-01-01T00:00:00.001Z'')
       (JObj [(''reporter'', JStr ''alice'')]))
     [''fields'', ''reporter'', ''displayName''] = Some (JStr []) \<and>
   field_of (normalizeCustomProject (JObj [(''lead'', JStr ''carol'')]))
     [''lead'', ''displayName''] = Some (JStr [])"
  by (simp add: normalizeCustomIssue_def normalizeCustomProject_def field_of_def nullish_def js_prop_Nil
        js_prop_Cons truthy_simps or_js_simps opt_prop_def)
     (simp add: js_prop_def or_js_simps)

text \<open>
  C7, amended: a non-empty string as assignee yields the assignee with that display name
  and the empty email address, the empty string no assignee. A non-empty string as space
  yields, when the page normalizer returns, the space with that key and that name; with the
  empty string the space has the key and the name \<^verbatim>\<open>space_key\<close> when that is truthy and
  is undefined otherwise. A string as reporter is only tested: when it is not empty or
  \<^verbatim>\<open>created_by\<close> is truthy, the reporter has the display name \<^verbatim>\<open>created_by\<close> if that is
  truthy and the empty one otherwise, and the empty email address; else there is no
  reporter. The same holds of a string as lead of a project, with \<^verbatim>\<open>owner\<close>. A non-empty
  string as priority yields the priority with that name and the id \<^verbatim>\<open>priority_id\<close>, or 3;
  the empty string no priority.
\<close>

theorem string_nested_field_wrapped:
  "(js_prop raw ''assignee'' = JStr s \<and> s \<noteq> [] \<longrightarrow>
      field_of (normalizeCustomIssue now raw) [''fields'', ''assignee''] =
        Some (JObj [(''displayName'', JStr s), (''emailAddress'', JStr [])])) \<and>
   (js_prop raw ''assignee'' = JStr [] \<longrightarrow>
      field_of (normalizeCustomIssue now raw) [''fields'', ''assignee''] = Some JUndef) \<and>
   (js_prop raw ''space'' = JStr s \<and> s \<noteq> [] \<and> normalizeCustomPage now raw = Inr out \<longrightarrow>
      field_at out [''space''] = JObj [(''key'', JStr s), (''name'', JStr s)]) \<and>
   (js_prop raw ''space'' = JStr [] \<and> normalizeCustomPage now raw = Inr out \<longrightarrow>
      field_at out [''space''] =
        (if truthy (js_prop raw ''space_key'')
         then JObj [(''key'', js_prop raw ''space_key''), (''name'', js_prop raw ''space_key'')]
         else JUndef)) \<and>
   (js_prop raw ''reporter'' = JStr s \<longrightarrow>
      field_of (normalizeCustomIssue now raw) [''fields'', ''reporter''] =
        Some (if s \<noteq> [] \<or> truthy (js_prop raw ''created_by'')
              then JObj [(''displayName'', first_truthy [js_prop raw ''created_by''] (JStr [])),
                         (''emailAddress'', JStr [])]
              else JUndef)) \<and>
   (js_prop raw ''lead'' = JStr s \<longrightarrow>
      field_of (normalizeCustomProject raw) [''lead''] =
        Some (if s \<noteq> [] \<or> truthy (js_prop raw ''owner'')
              then JObj [(''displayName'', first_truthy [js_prop raw ''owner''] (JStr []))]
              else JUndef)) \<and>
   (js_prop raw ''priority'' = JStr s \<longrightarrow>
      field_of (normalizeCustomIssue now raw) [''fields'', ''priority''] =
        Some (if s \<noteq> []
              then JObj [(''name'', JStr s), (''id'', first_truthy [js_prop raw ''priority_id''] (JStr ''3''))]
              else JUndef))"
proof -
  have 3: "js_prop raw ''space'' = JStr s \<and> s \<noteq> [] \<and> normalizeCustomPage now raw = Inr out \<longrightarrow>
      field_at out [''space''] = JObj [(''key'', JStr s), (''name'', JStr s)]"
  proof
    assume a: "js_prop raw ''space'' = JStr s \<and> s \<noteq> [] \<and> normalizeCustomPage now raw = Inr out"
    then have "page_space raw = Inr (JObj [(''key'', JStr s), (''name'', JStr s)])"
      using string_space by blast
    moreover have "Inr (field_at out [''space'']) = page_space raw"
      using a page_space_field by blast
    ultimately show "field_at out [''space''] = JObj [(''key'', JStr s), (''name'', JStr s)]"
      by simp
  qed
  show ?thesis
    using 3 string_assignee [of raw s now] empty_assignee [of raw now] empty_space [of raw now out]
      string_reporter [of raw s now] string_lead [of raw s] string_priority [of raw s now]
    by (intro conjI impI) blast+
qed

text \<open>
  The assignee bob, the reporter bob of an issue created by eve, the lead bob of a project
  with no owner, the space DEMO, the priority High, and the empty strings.
\<close>

theorem string_nested_field_wrapped_witness:
  "field_of (normalizeCustomIssue (''t1'', ''t2'')
        (JObj [(''assignee'', JStr ''bob''), (''space'', JStr ''DEMO''), (''reporter'', JStr ''bob''),
               (''created_by'', JStr ''eve''), (''lead'', JStr ''bob'')]))
      [''fields'', ''assignee'', ''displayName''] = Some (JStr ''bob'') \<and>
   field_of (normalizeCustomIssue (''t1'', ''t2'')
        (JObj [(''assignee'', JStr ''bob''), (''space'', JStr ''DEMO''), (''reporter'', JStr ''bob''),
               (''created_by'', JStr ''eve''), (''lead'', JStr ''bob'')]))
      [''fields'', ''reporter'', ''displayName''] = Some (JStr ''eve'') \<and>
   field_of (normalizeCustomProject
        (JObj [(''assignee'', JStr ''bob''), (''space'', JStr ''DEMO''), (''reporter'', JStr ''bob''),
               (''created_by'', JStr ''eve''), (''lead'', JStr ''bob'')]))
      [''lead'', ''displayName''] = Some (JStr []) \<and>
   (\<exists>out. normalizeCustomPage (''t1'', ''t2'')
        (JObj [(''assignee'', JStr ''bob''), (''space'', JStr ''DEMO''), (''reporter'', JStr ''bob''),
               (''created_by'', JStr ''eve''), (''lead'', JStr ''bob'')]) = Inr out \<and>
      field_at out [''space''] = JObj [(''key'', JStr ''DEMO''), (''name'', JStr ''DEMO'')]) \<and>
   field_of (normalizeCustomIssue (''t1'', ''t2'') (JObj [(''assignee'', JStr []), (''space'', JStr [])]))
      [''fields'', ''assignee''] = Some JUndef \<and>
   (\<exists>out. normalizeCustomPage (''t1'', ''t2'') (JObj [(''assignee'', JStr []), (''space'', JStr [])]) = Inr out \<and>
      field_at out [''space''] = JUndef) \<and>
   field_of (normalizeCustomIssue (''t1'', ''t2'') (JObj [(''priority'', JStr ''High'')])) [''fields'', ''priority''] =
      Some (JObj [(''name'', JStr ''High''), (''id'', JStr ''3'')])"
proof -
  let ?T = "(''t1'', ''t2'')"
  let ?raw = "JObj [(''assignee'', JStr ''bob''), (''space'', JStr ''DEMO''), (''reporter'', JStr ''bob''),
               (''created_by'', JStr ''eve''), (''lead'', JStr ''bob'')]"
  let ?emp = "JObj [(''assignee'', JStr []), (''space'', JStr [])]"
  note c2 = conjunct2
  note e = js_prop_Cons js_prop_Nil or_js_simps truthy_simps nullish_def
  note w = string_nested_field_wrapped [where raw = ?raw and s = "''bob''" and now = ?T]
  note d = string_nested_field_wrapped [where raw = ?raw and s = "''DEMO''" and now = ?T]
  note z = string_nested_field_wrapped [where raw = ?emp and now = ?T]
  have f3: "field_of r [a, b, c] = map_option (\<lambda>v. js_prop v c) (field_of r [a, b])" for r a b c
    by (cases r) (simp_all add: field_of_def)
  have f2: "field_of r [a, b] = map_option (\<lambda>v. js_prop v b) (field_of r [a])" for r a b
    by (cases r) (simp_all add: field_of_def)
  have 1: "field_of (normalizeCustomIssue ?T ?raw) [''fields'', ''assignee'', ''displayName''] = Some (JStr ''bob'')"
    unfolding f3 using w [THEN conjunct1] by (simp add: e)
  have 2: "field_of (normalizeCustomIssue ?T ?raw) [''fields'', ''reporter'', ''displayName''] = Some (JStr ''eve'')"
    unfolding f3 using w [THEN c2, THEN c2, THEN c2, THEN c2, THEN conjunct1] by (simp add: e)
  have 3: "field_of (normalizeCustomProject ?raw) [''lead'', ''displayName''] = Some (JStr [])"
    unfolding f2 using w [THEN c2, THEN c2, THEN c2, THEN c2, THEN c2, THEN conjunct1] by (simp add: e)
  obtain out where p: "normalizeCustomPage ?T ?raw = Inr out"
    by (simp add: normalizeCustomPage_def page_space_def typeof_object_def e)
  have 4: "field_at out [''space''] = JObj [(''key'', JStr ''DEMO''), (''name'', JStr ''DEMO'')]"
    using d [where out = out, THEN c2, THEN c2, THEN conjunct1] p by (simp add: e)
  have 5: "field_of (normalizeCustomIssue ?T ?emp) [''fields'', ''assignee''] = Some JUndef"
    using z [THEN c2, THEN conjunct1] by (simp add: e)
  obtain out0 where p0: "normalizeCustomPage ?T ?emp = Inr out0"
    by (simp add: normalizeCustomPage_def page_space_def typeof_object_def e)
  have 6: "field_at out0 [''space''] = JUndef"
    using z [where out = out0, THEN c2, THEN c2, THEN c2, THEN conjunct1] p0 by (simp add: e)
  have 7: "field_of (normalizeCustomIssue ?T (JObj [(''priority'', JStr ''High'')])) [''fields'', ''priority''] =
      Some (JObj [(''name'', JStr ''High''), (''id'', JStr ''3'')])"
    using string_nested_field_wrapped [where raw = "JObj [(''priority'', JStr ''High'')]" and s = "''High''" and now = ?T,
        THEN c2, THEN c2, THEN c2, THEN c2, THEN c2, THEN c2]
    by (simp add: e)
  from 1 2 3 4 5 6 7 p p0 show ?thesis by blast
qed

subsection \<open>C8\<close>

text \<open>
  C8, as stated, fails for issues when the upstream reports a total of its own: no issues
  and the total 37 yield the total 37.
\<close>

theorem upstream_total_counterexample:
  "jira_normalizeCustomSearchResult standing_clock (JObj [(''issues'', JArr []), (''total'', JNum 37)]) 25 50 =
     Inr (JObj [(''issues'', JArr []), (''total'', JNum 37), (''maxResults'', JNum 25), (''startAt'', JNum 50)])"
  by (simp add: jira_normalizeCustomSearchResult_def nullish_def js_prop_Cons js_prop_Nil or_js_simps)

text \<open>
  C8, amended: when the result array (the first truthy one of the aliases, or the empty
  default) is empty, the page search result has no results and the size 0, the issue
  search result has no issues and the upstream's total when that is truthy, 0 otherwise;
  neither throws.
\<close>

theorem empty_search_result:
  "(\<not> nullish r \<and>
      first_truthy (map (js_prop r) [''pages'', ''data'', ''results'']) (JArr []) = JArr [] \<longrightarrow>
      confluence_normalizeCustomSearchResult clock r limit start =
        Inr (JObj [(''results'', JArr []), (''start'', JNum start), (''limit'', JNum limit),
                   (''size'', JNum 0)])) \<and>
   (\<not> nullish r \<and>
      first_truthy (map (js_prop r) [''issues'', ''data'', ''results'']) (JArr []) = JArr [] \<longrightarrow>
      jira_normalizeCustomSearchResult clock r limit start =
        Inr (JObj [(''issues'', JArr []),
                   (''total'', first_truthy [js_prop r ''total''] (JNum 0)),
                   (''maxResults'', JNum limit), (''startAt'', JNum start)]))"
  using confluence_empty_result jira_empty_result by blast

text \<open>
  A response with an empty array under both names.
\<close>

theorem empty_search_result_witness:
  "confluence_normalizeCustomSearchResult standing_clock (JObj [(''pages'', JArr []), (''issues'', JArr [])]) 25 0 =
     Inr (JObj [(''results'', JArr []), (''start'', JNum 0), (''limit'', JNum 25), (''size'', JNum 0)]) \<and>
   jira_normalizeCustomSearchResult standing_clock (JObj [(''pages'', JArr []), (''issues'', JArr [])]) 25 0 =
     Inr (JObj [(''issues'', JArr []), (''total'', JNum 0), (''maxResults'', JNum 25), (''startAt'', JNum 0)])"
proof -
  let ?r = "JObj [(''pages'', JArr []), (''issues'', JArr [])]"
  have h1: "\<not> nullish ?r \<and> first_truthy (map (js_prop ?r) [''pages'', ''data'', ''results'']) (JArr []) = JArr []"
    by (simp add: nullish_def js_prop_Cons js_prop_Nil truthy_simps)
  have h2: "\<not> nullish ?r \<and> first_truthy (map (js_prop ?r) [''issues'', ''data'', ''results'']) (JArr []) = JArr []"
    by (simp add: nullish_def js_prop_Cons js_prop_Nil truthy_simps)
  show ?thesis
    using empty_search_result [of ?r standing_clock 25 0, THEN conjunct1, rule_format, OF h1]
      empty_search_result [of ?r standing_clock 25 0, THEN conjunct2, rule_format, OF h2]
    by (simp add: js_prop_Cons js_prop_Nil truthy_simps)
qed

subsection \<open>C9\<close>

text \<open>
  C9, as stated, fails for \<^verbatim>\<open>getSpace\<close>: on an empty list of spaces it throws.
\<close>

theorem getSpace_raises_counterexample:
  "getSpace custom_api empty_upstream ''DEMO'' =
     Inl (Failed ''Failed to get space DEMO'' (Err ''Space DEMO not found''))"
  by (simp add: getSpace_def getSpaces_def rethrow_def custom_api_def empty_upstream_def nullish_def
      js_prop_Cons js_prop_Nil or_js_simps truthy_simps)

text \<open>
  C9, amended: on an empty result set \<^verbatim>\<open>getPageByTitle\<close> returns null, against the
  custom upstream and against the standard one; \<^verbatim>\<open>getSpace\<close> against the custom
  upstream throws "Failed to get space K: Space K not found".
\<close>

theorem lookup_on_empty_result_set:
  "(useCustomApi cfg \<and>
      http (Get (''/'' @ customApiVersion cfg @ ''/pages/search'')
            [(''q'', JStr title), (''space'', JStr spaceKey), (''limit'', JNum 1)]) = Inr data \<and>
      \<not> nullish data \<and>
      first_truthy (map (js_prop data) [''pages'', ''data'', ''results'']) (JArr []) = JArr [] \<longrightarrow>
      getPageByTitle sp cfg http now spaceKey title expand = Inr JNull) \<and>
   (\<not> useCustomApi cfg \<and>
      http (Get ''/content'' [(''spaceKey'', JStr spaceKey), (''title'', JStr title),
            (''expand'', JStr (join_str '','' expand))]) = Inr data \<and>
      \<not> nullish data \<and>
      first_truthy (map (js_prop data) [''results'']) (JArr []) = JArr [] \<longrightarrow>
      getPageByTitle sp cfg http now spaceKey title expand = Inr JNull) \<and>
   (useCustomApi cfg \<and>
      http (Get (''/'' @ customApiVersion cfg @ ''/spaces'')
            [(''limit'', JNum (maxResultsDefault cfg))]) = Inr data \<and>
      \<not> nullish data \<and>
      first_truthy (map (js_prop data) [''spaces'', ''data'']) (JArr []) = JArr [] \<longrightarrow>
      getSpace cfg http spaceKey =
        Inl (Failed (''Failed to get space '' @ spaceKey) (Err (''Space '' @ spaceKey @ '' not found''))))"
  using page_by_title_custom_empty page_by_title_standard_empty space_custom_empty by blast

text \<open>
  The three lookups against the upstream whose result sets are empty.
\<close>

theorem lookup_on_empty_result_set_witness:
  "getPageByTitle no_numeric_strings custom_api empty_upstream (''t1'', ''t2'') ''DOCS'' ''Home''
      [''body.storage'', ''version''] = Inr JNull \<and>
   getPageByTitle no_numeric_strings standard_api empty_upstream (''t1'', ''t2'') ''DOCS'' ''Home''
      [''body.storage'', ''version''] = Inr JNull \<and>
   getSpace custom_api empty_upstream ''DOCS'' =
      Inl (Failed ''Failed to get space DOCS'' (Err ''Space DOCS not found''))"
proof -
  let ?data = "JObj [(''pages'', JArr []), (''results'', JArr []), (''spaces'', JArr [])]"
  note t = lookup_on_empty_result_set [of _ empty_upstream "''Home''" "''DOCS''" ?data no_numeric_strings
      "(''t1'', ''t2'')" "[''body.storage'', ''version'']"]
  have h1: "useCustomApi custom_api \<and>
      empty_upstream (Get (''/'' @ customApiVersion custom_api @ ''/pages/search'')
            [(''q'', JStr ''Home''), (''space'', JStr ''DOCS''), (''limit'', JNum 1)]) = Inr ?data \<and>
      \<not> nullish ?data \<and>
      first_truthy (map (js_prop ?data) [''pages'', ''data'', ''results'']) (JArr []) = JArr []"
    by (simp add: custom_api_def empty_upstream_def nullish_def js_prop_Cons truthy_simps)
  have h2: "\<not> useCustomApi standard_api \<and>
      empty_upstream (Get ''/content'' [(''spaceKey'', JStr ''DOCS''), (''title'', JStr ''Home''),
            (''expand'', JStr (join_str '','' [''body.storage'', ''version'']))]) = Inr ?data \<and>
      \<not> nullish ?data \<and>
      first_truthy (map (js_prop ?data) [''results'']) (JArr []) = JArr []"
    by (simp add: standard_api_def empty_upstream_def nullish_def js_prop_Cons truthy_simps)
  have h3: "useCustomApi custom_api \<and>
      empty_upstream (Get (''/'' @ customApiVersion custom_api @ ''/spaces'')
            [(''limit'', JNum (maxResultsDefault custom_api))]) = Inr ?data \<and>
      \<not> nullish ?data \<and>
      first_truthy (map (js_prop ?data) [''spaces'', ''data'']) (JArr []) = JArr []"
    by (simp add: custom_api_def empty_upstream_def nullish_def js_prop_Cons truthy_simps)
  show ?thesis
    using t [of custom_api, THEN conjunct1, rule_format, OF h1]
      t [of standard_api, THEN conjunct2, THEN conjunct1, rule_format, OF h2]
      t [of custom_api, THEN conjunct2, THEN conjunct2, rule_format, OF h3]
    by simp
qed

subsection \<open>C10\<close>

text \<open>
  C10, as stated, fails on both sides. The number 5 and the string abc are no objects,
  and are normalized to the defaults. And the page normalizer throws on actual objects:
  on one whose space is null next to a space key, and on one whose id is an object with a
  property \<^verbatim>\<open>toString\<close>.
\<close>

theorem primitive_and_null_space_counterexample:
  "normalizeCustomIssue (''2024-01-01T00:00:00.000Z'', ''2024-01-01T00:00:00.001Z'') (JNum 5) =
     Inr (issue_defaults (''2024-01-01T00:00:00.000Z'', ''2024-01-01T00:00:00.001Z'')) \<and>
   normalizeCustomIssue (''2024-01-01T00:00:00.000Z'', ''2024-01-01T00:00:00.001Z'') (JStr ''abc'') =
     Inr (issue_defaults (''2024-01-01T00:00:00.000Z'', ''2024-01-01T00:00:00.001Z'')) \<and>
   normalizeCustomPage (''2024-01-01T00:00:00.000Z'', ''2024-01-01T00:00:00.001Z'') (JNum 5) =
     Inr (page_defaults (''2024-01-01T00:00:00.000Z'', ''2024-01-01T00:00:00.001Z'')) \<and>
   normalizeCustomPage (''2024-01-01T00:00:00.000Z'', ''2024-01-01T00:00:00.001Z'')
     (JObj [(''space'', JNull), (''space_key'', JStr ''K'')]) = Inl TypeError \<and>
   normalizeCustomPage (''2024-01-01T00:00:00.000Z'', ''2024-01-01T00:00:00.001Z'')
     (JObj [(''id'', JObj [(''toString'', JNum 1)])]) = Inl TypeError"
proof -
  let ?T = "(''2024-01-01T00:00:00.000Z'', ''2024-01-01T00:00:00.001Z'')"
  have 1: "normalizeCustomIssue ?T (JNum 5) = Inr (issue_defaults ?T)"
    by (rule issue_all_defaults) (simp_all add: nullish_def js_prop_def)
  have 2: "normalizeCustomIssue ?T (JStr ''abc'') = Inr (issue_defaults ?T)"
    by (rule issue_all_defaults) (simp_all add: nullish_def js_prop_def issue_keys_def)
  have 3: "normalizeCustomPage ?T (JNum 5) = Inr (page_defaults ?T)"
    by (rule page_all_defaults) (simp_all add: nullish_def js_prop_def)
  have 4: "normalizeCustomPage ?T (JObj [(''space'', JNull), (''space_key'', JStr ''K'')]) = Inl TypeError"
    by (simp add: normalizeCustomPage_def page_space_def nullish_def js_prop_Nil js_prop_Cons
          or_js_simps truthy_simps typeof_object_def get_def)
  have 5: "normalizeCustomPage ?T (JObj [(''id'', JObj [(''toString'', JNum 1)])]) = Inl TypeError"
    by (simp add: normalizeCustomPage_def page_space_def nullish_def js_prop_Nil js_prop_Cons
          or_js_simps truthy_simps)
  from 1 2 3 4 5 show ?thesis by (intro conjI)
qed

text \<open>
  C10, amended: on \<^verbatim>\<open>null\<close> and on \<^verbatim>\<open>undefined\<close> the issue normalizer and the page
  normalizer throw a TypeError; the issue normalizer throws on nothing else. The page
  normalizer returns exactly when the raw value is neither null nor undefined, its space
  is not null next to a truthy \<^verbatim>\<open>space_key\<close>, and its \<^verbatim>\<open>id\<close> (or else
  \<^verbatim>\<open>page_id\<close>) converts to a string. On every other value that has none of the aliases,
  a primitive included, both return the entity of defaults.
\<close>

theorem normalizers_throw_on_null_input:
  "normalizeCustomIssue now JNull = Inl TypeError \<and>
   normalizeCustomIssue now JUndef = Inl TypeError \<and>
   normalizeCustomPage now JNull = Inl TypeError \<and>
   normalizeCustomPage now JUndef = Inl TypeError \<and>
   (normalizeCustomIssue now raw = Inl e) = (nullish raw \<and> e = TypeError) \<and>
   (\<exists>out. normalizeCustomPage now raw = Inr out) =
     (\<not> nullish raw \<and>
      \<not> (js_prop raw ''space'' = JNull \<and> truthy (js_prop raw ''space_key'')) \<and>
      (\<exists>ident. to_str (or_js (js_prop raw ''id'') (js_prop raw ''page_id'')) = Inr ident)) \<and>
   (\<not> nullish raw \<and> (\<forall>k\<in>set issue_keys. js_prop raw k = JUndef) \<longrightarrow>
      normalizeCustomIssue now raw = Inr (issue_defaults now)) \<and>
   (\<not> nullish raw \<and> (\<forall>k\<in>set page_keys. js_prop raw k = JUndef) \<longrightarrow>
      normalizeCustomPage now raw = Inr (page_defaults now))"
proof -
  have i: "(normalizeCustomIssue now raw = Inl e) = (nullish raw \<and> e = TypeError)"
    by (cases "nullish raw") (auto simp: normalizeCustomIssue_def)
  have n: "normalizeCustomIssue now JNull = Inl TypeError \<and>
   normalizeCustomIssue now JUndef = Inl TypeError \<and>
   normalizeCustomPage now JNull = Inl TypeError \<and>
   normalizeCustomPage now JUndef = Inl TypeError"
    by (simp add: normalizeCustomIssue_def normalizeCustomPage_def nullish_def)
  have d1: "\<not> nullish raw \<and> (\<forall>k\<in>set issue_keys. js_prop raw k = JUndef) \<longrightarrow>
      normalizeCustomIssue now raw = Inr (issue_defaults now)"
    using issue_all_defaults [of raw now] by blast
  have d2: "\<not> nullish raw \<and> (\<forall>k\<in>set page_keys. js_prop raw k = JUndef) \<longrightarrow>
      normalizeCustomPage now raw = Inr (page_defaults now)"
    using page_all_defaults [of raw now] by blast
  from n i page_returns_iff [of now raw] d1 d2 show ?thesis
    by (intro conjI) (erule conjunct1 conjunct2 | erule conjunct2 [THEN conjunct1]
        | erule conjunct2 [THEN conjunct2, THEN conjunct1]
        | erule conjunct2 [THEN conjunct2, THEN conjunct2] | assumption)+
qed

text \<open>
  The value \<^verbatim>\<open>true\<close> is normalized to the defaults by both, and the page normalizer
  returns on an object with an id and a string as space.
\<close>

theorem normalizers_throw_on_null_input_witness:
  "normalizeCustomIssue (''t1'', ''t2'') (JBool True) = Inr (issue_defaults (''t1'', ''t2'')) \<and>
   normalizeCustomPage (''t1'', ''t2'') (JBool True) = Inr (page_defaults (''t1'', ''t2'')) \<and>
   (\<exists>out. normalizeCustomPage (''t1'', ''t2'') (JObj [(''id'', JStr ''P7''), (''space'', JStr ''DEMO'')]) = Inr out)"
proof -
  let ?T = "(''t1'', ''t2'')"
  note c2 = conjunct2
  have nn: "\<not> nullish (JBool True)"
    by (simp add: nullish_def)
  have k: "\<forall>k\<in>set issue_keys. js_prop (JBool True) k = JUndef" "\<forall>k\<in>set page_keys. js_prop (JBool True) k = JUndef"
    by (simp_all add: js_prop_def)
  note t = normalizers_throw_on_null_input [where raw = "JBool True" and now = ?T]
  have 1: "normalizeCustomIssue ?T (JBool True) = Inr (issue_defaults ?T)"
    using t [THEN c2, THEN c2, THEN c2, THEN c2, THEN c2, THEN c2, THEN conjunct1] nn k by blast
  have 2: "normalizeCustomPage ?T (JBool True) = Inr (page_defaults ?T)"
    using t [THEN c2, THEN c2, THEN c2, THEN c2, THEN c2, THEN c2, THEN c2] nn k by blast
  let ?raw = "JObj [(''id'', JStr ''P7''), (''space'', JStr ''DEMO'')]"
  have h: "\<not> nullish ?raw \<and> \<not> (js_prop ?raw ''space'' = JNull \<and> truthy (js_prop ?raw ''space_key'')) \<and>
      (\<exists>ident. to_str (or_js (js_prop ?raw ''id'') (js_prop ?raw ''page_id'')) = Inr ident)"
    by (simp add: nullish_def js_prop_Cons js_prop_Nil or_js_simps)
  have 3: "\<exists>out. normalizeCustomPage ?T ?raw = Inr out"
    using normalizers_throw_on_null_input [where raw = ?raw and now = ?T,
        THEN c2, THEN c2, THEN c2, THEN c2, THEN c2, THEN conjunct1] h by blast
  from 1 2 3 show ?thesis by (intro conjI)
qed

end
